theory Spec2Isabelle
  imports Complex_Main "HOL-Library.Product_Lexorder"
begin

unbundle bit_operations_syntax

section \<open>Text and the Unicode tables\<close>

text \<open>
  A Python \<open>str\<close> is a sequence of Unicode code points; a character is its code point.
  Font sizes are Python floats; they are modelled by the reals. Comparisons and negation
  of floats are exact, so they agree with the reals; sums, quotients and the products with
  1.2 and 0.9 are rounded in the code and exact here, so the model and the code can differ
  where a font size lies within one rounding step of such a product. No theorem below rests
  on the value of a rounded product: each is either independent of the branch that
  compares with it, or evaluated where both sides of the comparison are far apart.
\<close>

type_synonym uchar = nat
type_synonym ustring = "uchar list"

definition ustr :: "string \<Rightarrow> ustring" where
  "ustr s = map of_char s"

text \<open>
  The character tables of the Python runtime (\<open>unicodedata\<close>, the \<open>str\<close> methods and the
  classes of \<open>re\<close>) are not part of the repository. They are a parameter of every function
  below, one field per library operation the source calls:
  \<^item> \<open>ucd_nfc\<close>: \<open>unicodedata.normalize('NFC', s)\<close>;
  \<^item> \<open>ucd_control\<close>: \<open>unicodedata.category(ch)[0] == 'C'\<close>;
  \<^item> \<open>ucd_wide\<close>: \<open>unicodedata.east_asian_width(c) in ('W', 'F')\<close>;
  \<^item> \<open>ucd_isspace\<close>: the whitespace of \<open>str.strip\<close>, \<open>str.split\<close> and the class \<open>\s\<close>;
  \<^item> \<open>ucd_isdecimal\<close>: the class \<open>\d\<close>;
  \<^item> \<open>ucd_lower\<close>: \<open>str.lower\<close>;
  \<^item> \<open>ucd_ieq p c\<close>: the pattern literal \<open>p\<close> matches the character \<open>c\<close> under \<open>re.IGNORECASE\<close>;
  \<^item> \<open>ucd_isalpha\<close>: \<open>c.isalpha()\<close>;
  \<^item> \<open>ucd_latin\<close>: \<open>unicodedata.name(c, '').startswith('LATIN')\<close>;
  \<^item> \<open>ucd_isupper\<close>: \<open>str.isupper\<close>.
\<close>

record ucd =
  ucd_nfc :: "ustring \<Rightarrow> ustring"
  ucd_control :: "uchar \<Rightarrow> bool"
  ucd_wide :: "uchar \<Rightarrow> bool"
  ucd_isspace :: "uchar \<Rightarrow> bool"
  ucd_isdecimal :: "uchar \<Rightarrow> bool"
  ucd_lower :: "ustring \<Rightarrow> ustring"
  ucd_ieq :: "uchar \<Rightarrow> uchar \<Rightarrow> bool"
  ucd_isalpha :: "uchar \<Rightarrow> bool"
  ucd_latin :: "uchar \<Rightarrow> bool"
  ucd_isupper :: "ustring \<Rightarrow> bool"

text \<open>
  The tables on Basic Latin (U+0000 to U+007F) and on the CJK Unified Ideographs
  (U+4E00 to U+9FFF), where every version of the Unicode database agrees. The concrete
  evaluations below use strings over these two ranges only.
\<close>

definition ascii_lower :: "uchar \<Rightarrow> uchar" where
  "ascii_lower c = (if 65 \<le> c \<and> c \<le> 90 then c + 32 else c)"

definition ascii_isupper :: "uchar \<Rightarrow> bool" where
  "ascii_isupper c = (65 \<le> c \<and> c \<le> 90)"

definition ascii_islower :: "uchar \<Rightarrow> bool" where
  "ascii_islower c = (97 \<le> c \<and> c \<le> 122)"

definition cjk_ideograph :: "uchar \<Rightarrow> bool" where
  "cjk_ideograph c = (0x4E00 \<le> c \<and> c \<le> 0x9FFF)"

definition ucd_basic :: ucd where
  "ucd_basic = \<lparr>
     ucd_nfc = (\<lambda>s. s),
     ucd_control = (\<lambda>c. c < 32 \<or> c = 127),
     ucd_wide = cjk_ideograph,
     ucd_isspace = (\<lambda>c. (9 \<le> c \<and> c \<le> 13) \<or> (28 \<le> c \<and> c \<le> 32)),
     ucd_isdecimal = (\<lambda>c. 48 \<le> c \<and> c \<le> 57),
     ucd_lower = map ascii_lower,
     ucd_ieq = (\<lambda>p c. ascii_lower c = ascii_lower p),
     ucd_isalpha = (\<lambda>c. ascii_isupper c \<or> ascii_islower c \<or> cjk_ideograph c),
     ucd_latin = (\<lambda>c. ascii_isupper c \<or> ascii_islower c),
     ucd_isupper = (\<lambda>s. list_ex ascii_isupper s \<and> \<not> list_ex ascii_islower s) \<rparr>"

subsection \<open>String operations of the source\<close>

text \<open>\<open>sum(2 if unicodedata.east_asian_width(c) in ('W', 'F') else 1 for c in text)\<close>\<close>

definition effective_length :: "ucd \<Rightarrow> ustring \<Rightarrow> nat" where
  "effective_length U text = sum_list (map (\<lambda>c. if ucd_wide U c then 2 else 1) text)"

text \<open>\<open>text.strip()\<close>\<close>

definition strip :: "ucd \<Rightarrow> ustring \<Rightarrow> ustring" where
  "strip U s = rev (dropWhile (ucd_isspace U) (rev (dropWhile (ucd_isspace U) s)))"

text \<open>\<open>text.split()\<close>: the maximal runs of non-whitespace characters; \<open>w\<close> is the run being read.\<close>

fun split_from :: "ucd \<Rightarrow> ustring \<Rightarrow> ustring \<Rightarrow> ustring list" where
  "split_from U w [] = (if w = [] then [] else [w])"
| "split_from U w (c # cs) =
     (if ucd_isspace U c then (if w = [] then split_from U [] cs else w # split_from U [] cs)
      else split_from U (w @ [c]) cs)"

definition split :: "ucd \<Rightarrow> ustring \<Rightarrow> ustring list" where
  "split U s = split_from U [] s"

text \<open>\<open>' '.join(parts)\<close>\<close>

fun join_space :: "ustring list \<Rightarrow> ustring" where
  "join_space [] = []"
| "join_space [x] = x"
| "join_space (x # y # ys) = x @ [32] @ join_space (y # ys)"

text \<open>
  \<open>text.encode('utf-8', errors='replace').decode('utf-8')\<close>: a lone surrogate cannot be
  encoded and is replaced by a question mark; every other code point survives the round trip.
\<close>

definition utf8_replace :: "ustring \<Rightarrow> ustring" where
  "utf8_replace s = map (\<lambda>c. if 0xD800 \<le> c \<and> c \<le> 0xDFFF then 63 else c) s"

text \<open>
  \<open>re.sub(r'\s+', ' ', text)\<close>: every maximal run of whitespace becomes one space;
  the flag says that the previous character was whitespace.
\<close>

fun collapse_from :: "ucd \<Rightarrow> bool \<Rightarrow> ustring \<Rightarrow> ustring" where
  "collapse_from U w [] = []"
| "collapse_from U w (c # cs) =
     (if ucd_isspace U c then (if w then collapse_from U True cs else 32 # collapse_from U True cs)
      else c # collapse_from U False cs)"

definition collapse_ws :: "ucd \<Rightarrow> ustring \<Rightarrow> ustring" where
  "collapse_ws U s = collapse_from U False s"

text \<open>
  \<open>re.sub(r'[,:;.\-\<dots>]+$', '', text)\<close>: the class holds comma, colon, semicolon, full stop,
  hyphen, en dash, em dash, the ideographic full stop and comma, the danda, and the Arabic
  comma and semicolon. \<open>$\<close> matches at the end of the text and before a final newline.
\<close>

definition trailing_punct :: "uchar list" where
  "trailing_punct =
     [0x2C, 0x3A, 0x3B, 0x2E, 0x2D, 0x2013, 0x2014, 0x3002, 0x3001, 0x964, 0x60C, 0x61B]"

definition drop_trailing_punct :: "ustring \<Rightarrow> ustring" where
  "drop_trailing_punct s = rev (dropWhile (\<lambda>c. c \<in> set trailing_punct) (rev s))"

definition rstrip_punct :: "ustring \<Rightarrow> ustring" where
  "rstrip_punct s =
     (if s \<noteq> [] \<and> last s = 10 then drop_trailing_punct (butlast s) @ [10]
      else drop_trailing_punct s)"

section \<open>The Text Normalizer\<close>

text \<open>
  \<open>clean_text\<close>, called on a \<open>str\<close>: the branch for \<open>bytes\<close> and the handlers of the
  \<open>try\<close> are not reached, since encoding with \<open>errors='replace'\<close> does not raise.
\<close>

definition clean_text :: "ucd \<Rightarrow> ustring \<Rightarrow> ustring" where
  "clean_text U text =
     (if text = [] then []
      else
        let t1 = utf8_replace text;
            t2 = ucd_nfc U t1;
            t3 = filter (\<lambda>ch. \<not> ucd_control U ch) t2;
            t4 = collapse_ws U t3;
            t5 = strip U t4;
            t6 = rstrip_punct t5;
            t7 = map (\<lambda>c. if c = 0x3000 then 32 else c) t6
        in filter (\<lambda>c. c \<noteq> 0xFFFD) t7)"

section \<open>Regular expressions\<close>

text \<open>
  The patterns of the source, matched by derivatives. \<open>Cls\<close> is a character class given by
  its ranges, \<open>LitI\<close> a literal under \<open>re.IGNORECASE\<close>, \<open>Eol\<close> the anchor \<open>$\<close>.
  The flag \<open>e\<close> says whether \<open>$\<close> holds at the current position.
\<close>

datatype rx =
    Never | Eps | Lit uchar | LitI uchar | Cls "(uchar \<times> uchar) list" | Digit | Space | Eol
  | Seq rx rx | Alt rx rx | Star rx

fun nullable :: "bool \<Rightarrow> rx \<Rightarrow> bool" where
  "nullable e Never = False"
| "nullable e Eps = True"
| "nullable e (Lit c) = False"
| "nullable e (LitI c) = False"
| "nullable e (Cls rs) = False"
| "nullable e Digit = False"
| "nullable e Space = False"
| "nullable e Eol = e"
| "nullable e (Seq r s) = (nullable e r \<and> nullable e s)"
| "nullable e (Alt r s) = (nullable e r \<or> nullable e s)"
| "nullable e (Star r) = True"

definition accept :: "bool \<Rightarrow> rx" where
  "accept b = (if b then Eps else Never)"

fun deriv :: "ucd \<Rightarrow> bool \<Rightarrow> uchar \<Rightarrow> rx \<Rightarrow> rx" where
  "deriv U e c Never = Never"
| "deriv U e c Eps = Never"
| "deriv U e c (Lit d) = accept (c = d)"
| "deriv U e c (LitI d) = accept (ucd_ieq U d c)"
| "deriv U e c (Cls rs) = accept (list_ex (\<lambda>(lo, hi). lo \<le> c \<and> c \<le> hi) rs)"
| "deriv U e c Digit = accept (ucd_isdecimal U c)"
| "deriv U e c Space = accept (ucd_isspace U c)"
| "deriv U e c Eol = Never"
| "deriv U e c (Seq r s) =
     (if nullable e r then Alt (Seq (deriv U e c r) s) (deriv U e c s)
      else Seq (deriv U e c r) s)"
| "deriv U e c (Alt r s) = Alt (deriv U e c r) (deriv U e c s)"
| "deriv U e c (Star r) = Seq (deriv U e c r) (Star r)"

definition at_eol :: "ustring \<Rightarrow> bool" where
  "at_eol s = (s = [] \<or> s = [10])"

text \<open>\<open>re.match(p, s)\<close> finds a match: some prefix of \<open>s\<close> matches the pattern.\<close>

fun re_match :: "ucd \<Rightarrow> rx \<Rightarrow> ustring \<Rightarrow> bool" where
  "re_match U r [] = nullable True r"
| "re_match U r (c # cs) =
     (nullable (at_eol (c # cs)) r \<or> re_match U (deriv U (at_eol (c # cs)) c r) cs)"

text \<open>\<open>re.search(p, s)\<close> finds a match, for a pattern that does not start with \<open>^\<close>.\<close>

fun re_search :: "ucd \<Rightarrow> rx \<Rightarrow> ustring \<Rightarrow> bool" where
  "re_search U r [] = re_match U r []"
| "re_search U r (c # cs) = (re_match U r (c # cs) \<or> re_search U r cs)"

definition Plus :: "rx \<Rightarrow> rx" where
  "Plus r = Seq r (Star r)"

definition Opt :: "rx \<Rightarrow> rx" where
  "Opt r = Alt r Eps"

definition Str :: "ustring \<Rightarrow> rx" where
  "Str s = foldr (\<lambda>c r. Seq (Lit c) r) s Eps"

definition StrI :: "ustring \<Rightarrow> rx" where
  "StrI s = foldr (\<lambda>c r. Seq (LitI c) r) s Eps"

definition Alts :: "rx list \<Rightarrow> rx" where
  "Alts rs = foldr Alt rs Never"

definition Chars :: "uchar list \<Rightarrow> rx" where
  "Chars cs = Cls (map (\<lambda>c. (c, c)) cs)"

section \<open>Errors\<close>

text \<open>
  The exceptions the code can meet: an index out of range, a division by zero, and a
  failure of the document library (opening a file, reading a page).
\<close>

datatype py_error = IndexError | ZeroDivisionError | DocumentError

text \<open>\<open>xs[i]\<close> for \<open>i \<ge> 0\<close>, and \<open>a / b\<close>.\<close>

definition py_index :: "'a list \<Rightarrow> nat \<Rightarrow> py_error + 'a" where
  "py_index xs i = (if i < length xs then Inr (xs ! i) else Inl IndexError)"

definition py_truediv :: "real \<Rightarrow> real \<Rightarrow> py_error + real" where
  "py_truediv a b = (if b = 0 then Inl ZeroDivisionError else Inr (a / b))"

section \<open>The Heading Classifier\<close>

text \<open>\<open>[~@#$%^&*_+=\\|<>/]{2,}\<close>\<close>

definition noise_rx :: rx where
  "noise_rx =
     (let noise = Chars [0x7E, 0x40, 0x23, 0x24, 0x25, 0x5E, 0x26, 0x2A, 0x5F, 0x2B, 0x3D, 0x5C,
                         0x7C, 0x3C, 0x3E, 0x2F]
      in Seq noise (Seq noise (Star noise)))"

text \<open>\<open>(written by|authored by|prepared by|compiled by|edited by)\<close>\<close>

definition attribution_rx :: rx where
  "attribution_rx =
     Alts [Str (ustr ''written by''), Str (ustr ''authored by''), Str (ustr ''prepared by''),
           Str (ustr ''compiled by''), Str (ustr ''edited by'')]"

text \<open>The Japanese attribution words (author, creator, editor).\<close>

definition attribution_ja_rx :: rx where
  "attribution_ja_rx =
     Alts [Str [0x8457, 0x8005], Str [0x4F5C, 0x6210, 0x8005], Str [0x7DE8, 0x96C6, 0x8005]]"

text \<open>The Hindi attribution phrases (written by, prepared by, compiled by).\<close>

definition attribution_hi_rx :: rx where
  "attribution_hi_rx =
     Alts [Str [0x926, 0x94D, 0x935, 0x93E, 0x930, 0x93E, 0x20, 0x932, 0x93F, 0x916, 0x93F, 0x924],
           Str [0x926, 0x94D, 0x935, 0x93E, 0x930, 0x93E, 0x20, 0x924, 0x948, 0x92F, 0x93E, 0x930],
           Str [0x926, 0x94D, 0x935, 0x93E, 0x930, 0x93E, 0x20, 0x938, 0x902, 0x915, 0x932, 0x93F,
                0x924]]"

text \<open>
  \<open>end_punct\<close>: one of full stop, ideographic full stop, danda, question mark, fullwidth
  question mark, exclamation mark, fullwidth exclamation mark; then \<open>\s*$\<close>.
\<close>

definition end_punct_rx :: rx where
  "end_punct_rx =
     Seq (Chars [0x2E, 0x3002, 0x964, 0x3F, 0xFF1F, 0x21, 0xFF01]) (Seq (Star Space) Eol)"

text \<open>\<open>^\d+(\.\d+)*\.?\s+\<close>\<close>

definition numbered_rx :: rx where
  "numbered_rx =
     Seq (Plus Digit) (Seq (Star (Seq (Lit 0x2E) (Plus Digit))) (Seq (Opt (Lit 0x2E)) (Plus Space)))"

text \<open>
  \<open>chapter_pattern\<close>: chapter, section, part, two Japanese and three Hindi markers, then
  \<open>\s*\d+\<close>, under \<open>re.IGNORECASE\<close>. The pattern starts with \<open>^\<close>, so \<open>re.search\<close>
  tries the start of the text only.
\<close>

definition chapter_rx :: rx where
  "chapter_rx =
     Seq (Alts [StrI (ustr ''chapter''), StrI (ustr ''section''), StrI (ustr ''part''),
                StrI [0x7AE0], StrI [0x7BC0], StrI [0x92D, 0x93E, 0x917],
                StrI [0x905, 0x927, 0x94D, 0x92F, 0x93E, 0x92F], StrI [0x916, 0x902, 0x921]])
         (Seq (Star Space) (Plus Digit))"

text \<open>\<open>any(c.isalpha() and unicodedata.name(c, '').startswith('LATIN') for c in text if c.isalpha())\<close>\<close>

definition has_latin :: "ucd \<Rightarrow> ustring \<Rightarrow> bool" where
  "has_latin U text = list_ex (\<lambda>c. ucd_isalpha U c \<and> ucd_latin U c) (filter (ucd_isalpha U) text)"

text \<open>\<open>sum(1 for w in words if w and w[0].isupper())\<close>\<close>

definition capitalised :: "ucd \<Rightarrow> ustring list \<Rightarrow> nat" where
  "capitalised U words =
     length (filter (\<lambda>w. case w of [] \<Rightarrow> False | c # _ \<Rightarrow> ucd_isupper U [c]) words)"

definition is_heading :: "ucd \<Rightarrow> ustring \<Rightarrow> real \<Rightarrow> bool \<Rightarrow> real \<Rightarrow> py_error + bool" where
  "is_heading U text font_size is_bold avg_font_size =
     (if text = [] \<or> length text < 3 then Inr False
      else if effective_length U text > 200 then Inr False
      else if re_search U noise_rx text then Inr False
      else if re_search U attribution_rx (ucd_lower U text) then Inr False
      else if re_search U attribution_ja_rx text then Inr False
      else if re_search U attribution_hi_rx text then Inr False
      else if re_search U end_punct_rx text \<and> effective_length U text > 100
                \<and> \<not> re_match U numbered_rx text then Inr False
      else if re_match U numbered_rx text then Inr True
      else if re_match U chapter_rx text then Inr True
      else if font_size > avg_font_size * 1.2 then Inr True
      else if is_bold \<and> font_size \<ge> avg_font_size then Inr True
      else if has_latin U text then
        (let words = split U text in
         case (if length words \<le> 6
               then (case py_truediv (real (capitalised U words)) (real (max 1 (length words))) of
                       Inl err \<Rightarrow> Inl err
                     | Inr fraction \<Rightarrow> Inr (fraction > 0.5))
               else Inr False) of
           Inl err \<Rightarrow> Inl err
         | Inr title_case \<Rightarrow>
             if title_case then Inr True
             else if ucd_isupper U text \<and> length text < 50 then Inr True
             else Inr False)
      else if length (split U text) \<le> 10 \<and> font_size \<ge> avg_font_size then Inr True
      else Inr False)"

section \<open>The Level Assigner\<close>

datatype level = H1 | H2 | H3

text \<open>
  The names of structural sections: seven English, six Japanese and six Hindi names,
  between \<open>^\<close> and \<open>$\<close>.
\<close>

definition section_names_rx :: rx where
  "section_names_rx =
     Seq (Alts [Str (ustr ''table of contents''), Str (ustr ''index''), Str (ustr ''appendix''),
                Str (ustr ''references''), Str (ustr ''bibliography''), Str (ustr ''glossary''),
                Str (ustr ''abstract''),
                Str [0x76EE, 0x6B21], Str [0x7D22, 0x5F15], Str [0x9644, 0x9332],
                Str [0x53C2, 0x8003, 0x6587, 0x732E], Str [0x7528, 0x8A9E, 0x96C6],
                Str [0x6982, 0x8981],
                Str [0x935, 0x93F, 0x937, 0x92F, 0x2D, 0x938, 0x942, 0x91A, 0x940],
                Str [0x905, 0x928, 0x941, 0x915, 0x94D, 0x930, 0x92E, 0x923, 0x93F, 0x915, 0x93E],
                Str [0x92A, 0x930, 0x93F, 0x936, 0x93F, 0x937, 0x94D, 0x91F],
                Str [0x938, 0x902, 0x926, 0x930, 0x94D, 0x92D],
                Str [0x936, 0x92C, 0x94D, 0x926, 0x93E, 0x935, 0x932, 0x940],
                Str [0x938, 0x93E, 0x930, 0x93E, 0x902, 0x936]])
         Eol"

text \<open>\<open>^(chapter|section|\<dots>)\s*\d+\<close> with two Japanese and two Hindi markers, under \<open>re.IGNORECASE\<close>.\<close>

definition chapter_marker_rx :: rx where
  "chapter_marker_rx =
     Seq (Alts [StrI (ustr ''chapter''), StrI (ustr ''section''), StrI [0x7AE0], StrI [0x7BC0],
                StrI [0x905, 0x927, 0x94D, 0x92F, 0x93E, 0x92F], StrI [0x916, 0x902, 0x921]])
         (Seq (Star Space) (Plus Digit))"

text \<open>\<open>^\d+\.\s+\<close>, \<open>^\d+\.\d+\<close> and \<open>^\d+\.\d+\.\d+\<close>\<close>

definition one_level_rx :: rx where
  "one_level_rx = Seq (Plus Digit) (Seq (Lit 0x2E) (Plus Space))"

definition two_level_rx :: rx where
  "two_level_rx = Seq (Plus Digit) (Seq (Lit 0x2E) (Plus Digit))"

definition three_level_rx :: rx where
  "three_level_rx =
     Seq (Plus Digit) (Seq (Lit 0x2E) (Seq (Plus Digit) (Seq (Lit 0x2E) (Plus Digit))))"

text \<open>\<open>^[\u2460-\u2473\u3251-\u32bf\u2776-\u277f]\<close>\<close>

definition bullet_rx :: rx where
  "bullet_rx = Cls [(0x2460, 0x2473), (0x3251, 0x32BF), (0x2776, 0x277F)]"

definition determine_heading_level ::
  "ucd \<Rightarrow> ustring \<Rightarrow> real \<Rightarrow> bool \<Rightarrow> real list \<Rightarrow> py_error + level" where
  "determine_heading_level U text font_size is_bold font_sizes =
     (if font_sizes = [] then
        (if is_bold \<and> font_size \<ge> 14 then Inr H1
         else if is_bold \<or> font_size \<ge> 12 then Inr H2
         else Inr H3)
      else
        let sorted_sizes = rev (sort font_sizes) in
        if re_match U section_names_rx (ucd_lower U text) then Inr H1
        else if re_match U chapter_marker_rx text then Inr H1
        else if re_match U one_level_rx text then Inr H1
        else if re_match U two_level_rx text then Inr H2
        else if re_match U three_level_rx text then Inr H3
        else if re_match U bullet_rx text then Inr H2
        else if length sorted_sizes \<ge> 3 then
          (case py_index sorted_sizes 0 of
             Inl err \<Rightarrow> Inl err
           | Inr largest \<Rightarrow>
               if font_size \<ge> largest * 0.9 then Inr H1
               else
                 (case py_index sorted_sizes (length sorted_sizes div 2) of
                    Inl err \<Rightarrow> Inl err
                  | Inr middle \<Rightarrow> if font_size \<ge> middle * 0.9 then Inr H2 else Inr H3))
        else
          (case py_index sorted_sizes 0 of
             Inl err \<Rightarrow> Inl err
           | Inr largest \<Rightarrow>
               if font_size \<ge> largest * 0.9 then Inr H1
               else if is_bold then Inr H2 else Inr H3))"

section \<open>The document, as the extraction library presents it\<close>

text \<open>
  A span carries its text, its font size, and (optionally, as \<open>span.get\<close> reads them) its
  flags and its font name. A line may lack the key \<open>spans\<close> and a block the key \<open>lines\<close>.
  A page is read twice, with two settings of the extraction flags: \<open>page_dict\<close> is
  \<open>page.get_text("dict")\<close>, \<open>page_dict_flags\<close> is the call with the \<open>flags\<close> argument;
  either call may raise. A document has an optional metadata title and its pages.
\<close>

record text_span =
  span_text :: ustring
  span_size :: real
  span_flags :: "nat option"
  span_font :: "ustring option"

type_synonym text_line = "text_span list option"
type_synonym block = "text_line list option"

record page =
  page_dict :: "py_error + block list"
  page_dict_flags :: "py_error + block list"

record document =
  metadata_title :: "ustring option"
  doc_pages :: "page list"

text \<open>The three nested loops over blocks, lines and spans, skipping what has no lines or spans.\<close>

definition spans_of :: "block list \<Rightarrow> text_span list" where
  "spans_of blocks =
     concat (map (\<lambda>b. case b of None \<Rightarrow> []
                       | Some lines \<Rightarrow> concat (map (\<lambda>l. case l of None \<Rightarrow> [] | Some spans \<Rightarrow> spans) lines))
                 blocks)"

text \<open>The dictionaries of candidates, lines and headings: text, font size, boldness, page.\<close>

record text_run =
  run_text :: ustring
  font_size :: real
  is_bold :: bool
  page_no :: nat

record outline_entry =
  entry_text :: ustring
  entry_level :: level
  entry_page :: nat

record extraction_result =
  title :: ustring
  outline :: "outline_entry list"

section \<open>The Title Resolver\<close>

text \<open>\<open>^\d+\.\s+\<close> is \<open>one_level_rx\<close>. The sort key is \<open>(h["page"], -h["font_size"])\<close>.\<close>

definition title_key :: "text_run \<Rightarrow> nat \<times> real" where
  "title_key h = (page_no h, - font_size h)"

text \<open>The loop that keeps the text of the largest span of the first page.\<close>

definition largest_step :: "ucd \<Rightarrow> ustring \<times> real \<Rightarrow> text_span \<Rightarrow> ustring \<times> real" where
  "largest_step U acc sp =
     (case acc of (largest_text, largest_size) \<Rightarrow>
        let text = strip U (span_text sp) in
        if span_size sp > largest_size \<and> effective_length U text > 3 then (text, span_size sp)
        else (largest_text, largest_size))"

text \<open>The fallback for vertical titles: three short fragments among the first five.\<close>

definition vertical_title :: "ucd \<Rightarrow> text_span list \<Rightarrow> ustring" where
  "vertical_title U spans =
     (let text_blocks = map (\<lambda>sp. strip U (span_text sp))
                            (filter (\<lambda>sp. length (strip U (span_text sp)) > 0) spans)
      in if length text_blocks \<ge> 3 then
           (let short_blocks = filter (\<lambda>b. 1 < length b \<and> length b < 10) (take 5 text_blocks)
            in if length short_blocks \<ge> 3 then join_space (take 3 short_blocks) else [])
         else [])"

text \<open>From \<open>page = doc[0]\<close> to the end of \<open>extract_title\<close>.\<close>

definition first_page_title :: "ucd \<Rightarrow> document \<Rightarrow> py_error + ustring" where
  "first_page_title U doc =
     (case py_index (doc_pages doc) 0 of
        Inl err \<Rightarrow> Inl err
      | Inr page \<Rightarrow>
          (case page_dict page of
             Inl err \<Rightarrow> Inl err
           | Inr blocks \<Rightarrow>
               let largest_text = fst (foldl (largest_step U) ([], 0) (spans_of blocks));
                   largest_text = (if largest_text = [] then vertical_title U (spans_of blocks)
                                   else largest_text)
               in Inr (if largest_text \<noteq> [] then largest_text else ustr ''Untitled Document'')))"

definition extract_title :: "ucd \<Rightarrow> document \<Rightarrow> text_run list \<Rightarrow> py_error + ustring" where
  "extract_title U doc headings =
     (case (case metadata_title doc of
              None \<Rightarrow> None
            | Some t \<Rightarrow> if t \<noteq> [] \<and> length (strip U t) > 3 then Some (strip U t) else None) of
        Some t \<Rightarrow> Inr t
      | None \<Rightarrow>
          (case (if headings \<noteq> [] then
                   (case py_index (sort_key title_key headings) 0 of
                      Inl err \<Rightarrow> Inl err
                    | Inr h \<Rightarrow>
                        let first_heading = run_text h in
                        if effective_length U first_heading < 150
                             \<and> \<not> re_match U one_level_rx first_heading
                        then Inr (Some first_heading) else Inr None)
                 else Inr None) of
             Inl err \<Rightarrow> Inl err
           | Inr (Some first_heading) \<Rightarrow> Inr first_heading
           | Inr None \<Rightarrow> first_page_title U doc))"

section \<open>The Outline Extractor\<close>

text \<open>\<open>"bold" in font_name.lower()\<close>: a literal occurs in a text.\<close>

fun starts_with :: "ustring \<Rightarrow> ustring \<Rightarrow> bool" where
  "starts_with [] s = True"
| "starts_with (p # ps) [] = False"
| "starts_with (p # ps) (c # cs) = (p = c \<and> starts_with ps cs)"

fun contains :: "ustring \<Rightarrow> ustring \<Rightarrow> bool" where
  "contains p [] = (p = [])"
| "contains p (c # cs) = (starts_with p (c # cs) \<or> contains p cs)"

text \<open>The body of the innermost loop: a span with text becomes a candidate.\<close>

definition span_candidate :: "ucd \<Rightarrow> nat \<Rightarrow> text_span \<Rightarrow> text_run option" where
  "span_candidate U page_num sp =
     (let text = strip U (span_text sp) in
      if text = [] then None
      else
        let flags = (case span_flags sp of None \<Rightarrow> 0 | Some f \<Rightarrow> f);
            font_name = ucd_lower U (case span_font sp of None \<Rightarrow> [] | Some n \<Rightarrow> n);
            bold = ((flags AND 2) \<noteq> 0 \<or> contains (ustr ''bold'') font_name
                    \<or> contains (ustr ''heavy'') font_name \<or> contains (ustr ''black'') font_name
                    \<or> contains (ustr ''strong'') font_name)
        in Some \<lparr> run_text = text, font_size = span_size sp, is_bold = bold,
                  page_no = page_num + 1 \<rparr>)"

text \<open>
  The first pass over the pages \<open>page_num, page_num + 1, \<dots>\<close>; \<open>font_stats\<close> receives the
  font size of every candidate, in the same order.
\<close>

fun collect_candidates :: "ucd \<Rightarrow> nat \<Rightarrow> page list \<Rightarrow> py_error + text_run list" where
  "collect_candidates U page_num [] = Inr []"
| "collect_candidates U page_num (p # ps) =
     (case page_dict_flags p of
        Inl err \<Rightarrow> Inl err
      | Inr blocks \<Rightarrow>
          (case collect_candidates U (page_num + 1) ps of
             Inl err \<Rightarrow> Inl err
           | Inr rest \<Rightarrow> Inr (List.map_filter (span_candidate U page_num) (spans_of blocks) @ rest)))"

text \<open>The Line Merger: the state is the list of completed lines and the current line.\<close>

definition merge_step :: "text_run list \<times> text_run \<Rightarrow> text_run \<Rightarrow> text_run list \<times> text_run" where
  "merge_step st candidate =
     (case st of (lines, current_line) \<Rightarrow>
        if run_text current_line = [] then (lines, candidate)
        else if page_no candidate = page_no current_line
                  \<and> \<bar>font_size candidate - font_size current_line\<bar> < 1
        then (lines, current_line\<lparr> run_text := run_text current_line @ [32] @ run_text candidate,
                                   is_bold := (is_bold current_line \<or> is_bold candidate) \<rparr>)
        else (lines @ [current_line], candidate))"

definition merge_lines :: "text_run list \<Rightarrow> text_run list" where
  "merge_lines candidates =
     (case foldl merge_step ([], \<lparr> run_text = [], font_size = 0, is_bold = False, page_no = 0 \<rparr>)
                 candidates of
        (lines, current_line) \<Rightarrow>
          if run_text current_line \<noteq> [] then lines @ [current_line] else lines)"

text \<open>The second pass: normalize each line, keep the headings.\<close>

fun identify_headings :: "ucd \<Rightarrow> real \<Rightarrow> text_run list \<Rightarrow> py_error + text_run list" where
  "identify_headings U avg_font_size [] = Inr []"
| "identify_headings U avg_font_size (line # lines) =
     (let text = clean_text U (run_text line) in
      if text = [] then identify_headings U avg_font_size lines
      else
        (case is_heading U text (font_size line) (is_bold line) avg_font_size of
           Inl err \<Rightarrow> Inl err
         | Inr heading \<Rightarrow>
             (case identify_headings U avg_font_size lines of
                Inl err \<Rightarrow> Inl err
              | Inr headings \<Rightarrow>
                  Inr (if heading then line\<lparr> run_text := text \<rparr> # headings else headings))))"

fun assign_levels :: "ucd \<Rightarrow> real list \<Rightarrow> text_run list \<Rightarrow> py_error + outline_entry list" where
  "assign_levels U heading_font_sizes [] = Inr []"
| "assign_levels U heading_font_sizes (heading # headings) =
     (case determine_heading_level U (run_text heading) (font_size heading) (is_bold heading)
             heading_font_sizes of
        Inl err \<Rightarrow> Inl err
      | Inr lvl \<Rightarrow>
          (case assign_levels U heading_font_sizes headings of
             Inl err \<Rightarrow> Inl err
           | Inr entries \<Rightarrow>
               Inr (\<lparr> entry_text = run_text heading, entry_level = lvl,
                      entry_page = page_no heading \<rparr> # entries)))"

text \<open>
  The statements of the \<open>try\<close> block between \<open>fitz.open\<close> and \<open>doc.close()\<close>:
  \<open>Inl\<close> when one of them raises.
\<close>

definition extract_steps :: "ucd \<Rightarrow> document \<Rightarrow> int \<Rightarrow> py_error + extraction_result" where
  "extract_steps U doc max_pages =
     (let num_pages = nat (min (int (length (doc_pages doc))) max_pages) in
      case collect_candidates U 0 (take num_pages (doc_pages doc)) of
        Inl err \<Rightarrow> Inl err
      | Inr heading_candidates \<Rightarrow>
          let font_stats = map font_size heading_candidates in
          (case py_truediv (sum_list font_stats) (real (max 1 (length font_stats))) of
             Inl err \<Rightarrow> Inl err
           | Inr avg_font_size \<Rightarrow>
               (case identify_headings U avg_font_size (merge_lines heading_candidates) of
                  Inl err \<Rightarrow> Inl err
                | Inr headings \<Rightarrow>
                    (case extract_title U doc headings of
                       Inl err \<Rightarrow> Inl err
                     | Inr t \<Rightarrow>
                         (case assign_levels U (map font_size headings) headings of
                            Inl err \<Rightarrow> Inl err
                          | Inr entries \<Rightarrow> Inr \<lparr> title = t, outline = entries \<rparr>)))))"

text \<open>
  \<open>extract_outline\<close>: the argument \<open>opened\<close> is the outcome of \<open>fitz.open(pdf_path)\<close>.
  The second component of the result is the state in which the call leaves the document
  handle: \<open>doc.close()\<close> is the statement after the steps above, inside the \<open>try\<close>.
\<close>

datatype handle = NotOpened | Open | Closed

definition error_result :: extraction_result where
  "error_result = \<lparr> title = ustr ''Error'', outline = [] \<rparr>"

definition extract_outline_try ::
  "ucd \<Rightarrow> py_error + document \<Rightarrow> int \<Rightarrow> (py_error + extraction_result) \<times> handle" where
  "extract_outline_try U opened max_pages =
     (case opened of
        Inl err \<Rightarrow> (Inl err, NotOpened)
      | Inr doc \<Rightarrow>
          (case extract_steps U doc max_pages of
             Inl err \<Rightarrow> (Inl err, Open)
           | Inr result \<Rightarrow> (Inr result, Closed)))"

definition extract_outline ::
  "ucd \<Rightarrow> py_error + document \<Rightarrow> int \<Rightarrow> extraction_result \<times> handle" where
  "extract_outline U opened max_pages =
     (case extract_outline_try U opened max_pages of
        (Inl err, h) \<Rightarrow> (error_result, h)
      | (Inr result, h) \<Rightarrow> (result, h))"

section \<open>Auxiliary definitions for the proofs\<close>

text \<open>A pattern that no text matches: it stays so under every derivative.\<close>

fun dead :: "rx \<Rightarrow> bool" where
  "dead Never = True"
| "dead (Seq r s) = (dead r \<or> dead s)"
| "dead (Alt r s) = (dead r \<and> dead s)"
| "dead r = False"

text \<open>Sample headings and a sample first page, for the concrete evaluations.\<close>

definition sample_headings :: "text_run list" where
  "sample_headings =
     [\<lparr> run_text = ustr ''Details'', font_size = 13, is_bold = False, page_no = 2 \<rparr>,
      \<lparr> run_text = ustr ''Overview'', font_size = 16, is_bold = True, page_no = 1 \<rparr>,
      \<lparr> run_text = ustr ''Scope'', font_size = 18, is_bold = False, page_no = 1 \<rparr>]"

definition sample_page :: page where
  "sample_page =
     \<lparr> page_dict = Inr [Some [Some [\<lparr> span_text = ustr ''Big Title'', span_size = 20,
                                       span_flags = Some 0, span_font = Some (ustr ''Helvetica'') \<rparr>]]],
       page_dict_flags = Inr [] \<rparr>"

definition sample_span :: text_span where
  "sample_span = \<lparr> span_text = ustr ''Intro .'', span_size = 18, span_flags = Some 0,
                   span_font = Some (ustr ''Helvetica'') \<rparr>"

definition sample_doc :: document where
  "sample_doc =
     \<lparr> metadata_title = Some (ustr ''Report.''),
       doc_pages = [\<lparr> page_dict = Inr [Some [Some [sample_span]]],
                      page_dict_flags = Inr [Some [Some [sample_span]]] \<rparr>] \<rparr>"

definition sample_line :: text_run where
  "sample_line = \<lparr> run_text = ustr ''Intro .'', font_size = 18, is_bold = False, page_no = 1 \<rparr>"

text \<open>
  Printable ASCII text, the facts about the character tables on it, and texts without two
  adjacent whitespace characters.
\<close>

definition printable :: "ustring \<Rightarrow> bool" where
  "printable s = list_all (\<lambda>c. 32 \<le> c \<and> c \<le> 126) s"

definition ascii_tables :: "ucd \<Rightarrow> bool" where
  "ascii_tables U =
     ((\<forall>s. printable s \<longrightarrow> ucd_nfc U s = s)
      \<and> (\<forall>c. 32 \<le> c \<and> c \<le> 126 \<longrightarrow> \<not> ucd_control U c \<and> (ucd_isspace U c \<longleftrightarrow> c = 32)))"

fun no_ws_pair :: "ucd \<Rightarrow> ustring \<Rightarrow> bool" where
  "no_ws_pair U [] = True"
| "no_ws_pair U [c] = True"
| "no_ws_pair U (c # d # s) = (\<not> (ucd_isspace U c \<and> ucd_isspace U d) \<and> no_ws_pair U (d # s))"

section \<open>Totality of the classifiers\<close>

lemma py_truediv_max: "py_truediv a (real (max 1 n)) = Inr (a / real (max 1 n))"
  by (simp add: py_truediv_def)

lemma py_index_sorted_0:
  "font_sizes \<noteq> [] \<Longrightarrow> py_index (rev (sort font_sizes)) 0 = Inr (rev (sort font_sizes) ! 0)"
  by (simp add: py_index_def)

lemma py_index_sorted_mid:
  "font_sizes \<noteq> [] \<Longrightarrow>
     py_index (rev (sort font_sizes)) (length (rev (sort font_sizes)) div 2)
       = Inr (rev (sort font_sizes) ! (length font_sizes div 2))"
  by (simp add: py_index_def)

lemma ok_Inr: "\<exists>v. Inr x = Inr v"
  by simp

lemma ok_if: "\<exists>v. a = Inr v \<Longrightarrow> \<exists>v. b = Inr v \<Longrightarrow> \<exists>v. (if c then a else b) = Inr v"
  by simp

lemma ok_case:
  "\<exists>v. m = Inr v \<Longrightarrow> (\<And>x. \<exists>v. f x = Inr v)
    \<Longrightarrow> \<exists>v. (case m of Inl err \<Rightarrow> Inl err | Inr x \<Rightarrow> f x) = Inr v"
  by auto

lemma is_heading_total: "\<exists>v. is_heading U tx fs b avg = Inr v"
  unfolding is_heading_def Let_def py_truediv_max
  by (intro ok_if ok_case ok_Inr)

lemma determine_heading_level_total: "\<exists>v. determine_heading_level U tx fs b font_sizes = Inr v"
proof (cases "font_sizes = []")
  case True
  then show ?thesis
    by (simp add: determine_heading_level_def)
next
  case False
  show ?thesis
    apply (simp only: determine_heading_level_def Let_def False if_False sum.case
        py_index_sorted_0 [OF False] py_index_sorted_mid [OF False])
    apply (intro ok_if ok_Inr)
    done
qed

text \<open>
  C10. For every text, font size, boldness, average font size and list of heading font
  sizes, \<open>is_heading\<close> and \<open>determine_heading_level\<close> return a value and raise nothing:
  the division of the capitalisation fraction has the divisor \<open>max(1, len(words))\<close>, and
  the two reads of \<open>sorted_sizes\<close> happen only when the list of font sizes is not empty.
  In the model the division and the reads have a failing branch (\<open>py_truediv\<close>,
  \<open>py_index\<close>); the theorem says that no input takes it.
\<close>

theorem classifiers_total:
  "(\<exists>v. is_heading U tx fs bold avg = Inr v)
   \<and> (\<exists>l. determine_heading_level U tx fs bold font_sizes = Inr l)"
  using is_heading_total determine_heading_level_total by blast

theorem classifiers_total_witness:
  "(\<exists>v. is_heading ucd_basic (ustr ''Intro'') 12 False 12 = Inr v)
   \<and> (\<exists>l. determine_heading_level ucd_basic (ustr ''Intro'') 12 False [12, 14, 16] = Inr l)"
  by (rule classifiers_total)

section \<open>Length rules of the Heading Classifier\<close>

lemma effective_length_wide: "\<forall>c\<in>set tx. ucd_wide U c \<Longrightarrow> effective_length U tx = 2 * length tx"
  by (induction tx) (simp_all add: effective_length_def)

lemma effective_length_narrow: "\<forall>c\<in>set tx. \<not> ucd_wide U c \<Longrightarrow> effective_length U tx = length tx"
  by (induction tx) (simp_all add: effective_length_def)

lemma is_heading_too_long: "effective_length U tx > 200 \<Longrightarrow> is_heading U tx fs b avg = Inr False"
  by (simp add: is_heading_def)

lemma is_heading_too_short: "length tx < 3 \<Longrightarrow> is_heading U tx fs b avg = Inr False"
  by (simp add: is_heading_def)

text \<open>
  A text that passes the rejection rules is accepted when it is bold and at least as large
  as the average, whichever way the comparison with 1.2 times the average turns out.
\<close>

lemma is_heading_bold:
  "\<lbrakk>3 \<le> length tx; effective_length U tx \<le> 200; \<not> re_search U noise_rx tx;
    \<not> re_search U attribution_rx (ucd_lower U tx); \<not> re_search U attribution_ja_rx tx;
    \<not> re_search U attribution_hi_rx tx; \<not> re_search U end_punct_rx tx;
    b; fs \<ge> avg\<rbrakk> \<Longrightarrow> is_heading U tx fs b avg = Inr True"
  by (auto simp add: is_heading_def)

lemma dead_not_nullable: "dead r \<Longrightarrow> \<not> nullable e r"
  by (induction r) auto

lemma dead_deriv: "dead r \<Longrightarrow> dead (deriv U e c r)"
  by (induction r) (auto simp add: dead_not_nullable)

lemma dead_no_match: "dead r \<Longrightarrow> \<not> re_match U r s"
  by (induction s arbitrary: r) (auto simp add: dead_not_nullable dead_deriv)

lemma no_match_dead_deriv:
  assumes "\<And>e. \<not> nullable e r" and "\<And>e c. c \<in> set s \<Longrightarrow> dead (deriv U e c r)"
  shows "\<not> re_match U r s"
  using assms by (cases s) (auto simp add: dead_no_match)

lemma no_search_dead_deriv:
  assumes "\<And>e. \<not> nullable e r" and "\<And>e c. c \<in> set s \<Longrightarrow> dead (deriv U e c r)"
  shows "\<not> re_search U r s"
  using assms
proof (induction s)
  case Nil
  then show ?case by simp
next
  case (Cons c cs)
  have "\<not> re_match U r (c # cs)"
    by (rule no_match_dead_deriv) (use Cons.prems in auto)
  moreover have "\<not> re_search U r cs"
    by (rule Cons.IH) (use Cons.prems in auto)
  ultimately show ?case by simp
qed

lemma ucd_basic_simps:
  "ucd_nfc ucd_basic s = s"
  "ucd_control ucd_basic c = (c < 32 \<or> c = 127)"
  "ucd_wide ucd_basic c = (0x4E00 \<le> c \<and> c \<le> 0x9FFF)"
  "ucd_isspace ucd_basic c = ((9 \<le> c \<and> c \<le> 13) \<or> (28 \<le> c \<and> c \<le> 32))"
  "ucd_isdecimal ucd_basic c = (48 \<le> c \<and> c \<le> 57)"
  "ucd_lower ucd_basic s = map ascii_lower s"
  "ucd_ieq ucd_basic p c = (ascii_lower c = ascii_lower p)"
  "ucd_isalpha ucd_basic c = (ascii_isupper c \<or> ascii_islower c \<or> cjk_ideograph c)"
  "ucd_latin ucd_basic c = (ascii_isupper c \<or> ascii_islower c)"
  "ucd_isupper ucd_basic s = (list_ex ascii_isupper s \<and> \<not> list_ex ascii_islower s)"
  by (simp_all add: ucd_basic_def cjk_ideograph_def)

lemmas rx_eval = ustr_def ucd_basic_simps Let_def Plus_def Opt_def Str_def StrI_def Alts_def Chars_def
  accept_def at_eol_def ascii_lower_def ascii_isupper_def ascii_islower_def cjk_ideograph_def

text \<open>A text made of the letter Z alone matches none of the rejection patterns.\<close>

lemma zs_noise: "\<not> re_search ucd_basic noise_rx (replicate n 90)"
  by (rule no_search_dead_deriv) (simp_all add: noise_rx_def rx_eval)

lemma zs_attribution: "\<not> re_search ucd_basic attribution_rx (ucd_lower ucd_basic (replicate n 90))"
  by (rule no_search_dead_deriv) (simp_all add: attribution_rx_def rx_eval)

lemma zs_attribution_ja: "\<not> re_search ucd_basic attribution_ja_rx (replicate n 90)"
  by (rule no_search_dead_deriv) (simp_all add: attribution_ja_rx_def rx_eval)

lemma zs_attribution_hi: "\<not> re_search ucd_basic attribution_hi_rx (replicate n 90)"
  by (rule no_search_dead_deriv) (simp_all add: attribution_hi_rx_def rx_eval)

lemma zs_end_punct: "\<not> re_search ucd_basic end_punct_rx (replicate n 90)"
  by (rule no_search_dead_deriv) (simp_all add: end_punct_rx_def rx_eval)

text \<open>
  C8. \<open>is_heading\<close> rejects every text whose effective length (wide and fullwidth
  characters counted twice) exceeds 200. Hence a text of 150 wide characters has effective
  length 300 and is rejected, whatever its font; a text of 150 narrow characters has
  effective length 150, neither length test rejects it, and when no rejection pattern
  matches it, it is bold and its font is at least the average, it is accepted.
\<close>

theorem length_cap:
  "(effective_length U tx > 200 \<longrightarrow> is_heading U tx fs bold avg = Inr False)
   \<and> (length tx = 150 \<and> (\<forall>c\<in>set tx. ucd_wide U c)
        \<longrightarrow> effective_length U tx = 300 \<and> is_heading U tx fs bold avg = Inr False)
   \<and> (length tx = 150 \<and> (\<forall>c\<in>set tx. \<not> ucd_wide U c)
        \<longrightarrow> effective_length U tx = 150 \<and> \<not> length tx < 3 \<and> \<not> effective_length U tx > 200
            \<and> (\<not> re_search U noise_rx tx \<and> \<not> re_search U attribution_rx (ucd_lower U tx)
                 \<and> \<not> re_search U attribution_ja_rx tx \<and> \<not> re_search U attribution_hi_rx tx
                 \<and> \<not> re_search U end_punct_rx tx \<and> bold \<and> fs \<ge> avg
               \<longrightarrow> is_heading U tx fs bold avg = Inr True))"
proof (intro conjI impI)
  assume "effective_length U tx > 200"
  then show "is_heading U tx fs bold avg = Inr False" by (rule is_heading_too_long)
next
  assume a: "length tx = 150 \<and> (\<forall>c\<in>set tx. ucd_wide U c)"
  then show e: "effective_length U tx = 300" by (simp add: effective_length_wide)
  then show "is_heading U tx fs bold avg = Inr False" by (simp add: is_heading_too_long)
next
  assume a: "length tx = 150 \<and> (\<forall>c\<in>set tx. \<not> ucd_wide U c)"
  then show e: "effective_length U tx = 150" by (simp add: effective_length_narrow)
  from a show "\<not> length tx < 3" by simp
  from e show "\<not> effective_length U tx > 200" by simp
  assume "\<not> re_search U noise_rx tx \<and> \<not> re_search U attribution_rx (ucd_lower U tx)
                 \<and> \<not> re_search U attribution_ja_rx tx \<and> \<not> re_search U attribution_hi_rx tx
                 \<and> \<not> re_search U end_punct_rx tx \<and> bold \<and> fs \<ge> avg"
  with a e show "is_heading U tx fs bold avg = Inr True"
    by (intro is_heading_bold) simp_all
qed

theorem length_cap_witness:
  "is_heading ucd_basic (replicate 150 0x4E2D) 10 True 10 = Inr False
   \<and> effective_length ucd_basic (replicate 150 0x4E2D) = 300
   \<and> effective_length ucd_basic (replicate 150 90) = 150
   \<and> is_heading ucd_basic (replicate 150 90) 10 True 10 = Inr True"
proof -
  have w: "length (replicate 150 (0x4E2D::nat)) = 150
            \<and> (\<forall>c\<in>set (replicate 150 0x4E2D). ucd_wide ucd_basic c)"
    by (simp add: ucd_basic_simps)
  have n: "length (replicate 150 (90::nat)) = 150
            \<and> (\<forall>c\<in>set (replicate 150 90). \<not> ucd_wide ucd_basic c)"
    by (simp add: ucd_basic_simps)
  have f: "(10::real) \<ge> 10" by simp
  show ?thesis
    using length_cap [of ucd_basic "replicate 150 0x4E2D" 10 True 10]
      length_cap [of ucd_basic "replicate 150 90" 10 True 10] w n f
      zs_noise zs_attribution zs_attribution_ja zs_attribution_hi zs_end_punct
    by blast
qed

text \<open>
  The word for "table of contents", U+76EE U+6B21, is one of four section names of two
  ideographs that the Level Assigner lists as H1; with a third ideograph, U+8868, the text
  matches no rejection pattern.
\<close>

lemma contents_level:
  "re_match ucd_basic section_names_rx (ucd_lower ucd_basic [0x76EE, 0x6B21])"
  by (simp add: section_names_rx_def rx_eval)

lemma cjk3_noise: "\<not> re_search ucd_basic noise_rx [0x76EE, 0x6B21, 0x8868]"
  by (rule no_search_dead_deriv) (auto simp add: noise_rx_def rx_eval)

lemma cjk3_attribution:
  "\<not> re_search ucd_basic attribution_rx (ucd_lower ucd_basic [0x76EE, 0x6B21, 0x8868])"
  by (rule no_search_dead_deriv) (auto simp add: attribution_rx_def rx_eval)

lemma cjk3_attribution_ja: "\<not> re_search ucd_basic attribution_ja_rx [0x76EE, 0x6B21, 0x8868]"
  by (rule no_search_dead_deriv) (auto simp add: attribution_ja_rx_def rx_eval)

lemma cjk3_attribution_hi: "\<not> re_search ucd_basic attribution_hi_rx [0x76EE, 0x6B21, 0x8868]"
  by (rule no_search_dead_deriv) (auto simp add: attribution_hi_rx_def rx_eval)

lemma cjk3_end_punct: "\<not> re_search ucd_basic end_punct_rx [0x76EE, 0x6B21, 0x8868]"
  by (rule no_search_dead_deriv) (auto simp add: end_punct_rx_def rx_eval)

lemmas cjk3_no_pattern =
  cjk3_noise cjk3_attribution cjk3_attribution_ja cjk3_attribution_hi cjk3_end_punct

text \<open>
  C5. The claim asks that the test for a text that is too short counts widths, so that a
  text of two fullwidth CJK characters, of effective length 4, is not rejected as too
  short. The code tests \<open>len(text) < 3\<close>, the number of characters: the section name
  U+76EE U+6B21 has effective length 4 and \<open>is_heading\<close> rejects it for every font size,
  boldness and average, although \<open>determine_heading_level\<close> would give it the level H1
  and the same call accepts the text once a third ideograph follows.
\<close>

theorem two_cjk_characters_rejected:
  "effective_length ucd_basic [0x76EE, 0x6B21] = 4
   \<and> is_heading ucd_basic [0x76EE, 0x6B21] fs bold avg = Inr False
   \<and> determine_heading_level ucd_basic [0x76EE, 0x6B21] fs bold [fs] = Inr H1
   \<and> is_heading ucd_basic [0x76EE, 0x6B21, 0x8868] 10 True 10 = Inr True"
proof -
  have "effective_length ucd_basic [0x76EE, 0x6B21] = 4"
    by (simp add: effective_length_def ucd_basic_simps)
  moreover have "is_heading ucd_basic [0x76EE, 0x6B21] fs bold avg = Inr False"
    by (simp add: is_heading_too_short)
  moreover have "determine_heading_level ucd_basic [0x76EE, 0x6B21] fs bold [fs] = Inr H1"
    using contents_level by (simp add: determine_heading_level_def)
  moreover have "is_heading ucd_basic [0x76EE, 0x6B21, 0x8868] 10 True 10 = Inr True"
    by (rule is_heading_bold [OF _ _ cjk3_no_pattern])
       (simp_all add: effective_length_def ucd_basic_simps)
  ultimately show ?thesis by simp
qed

section \<open>The orchestrator: failures, the empty document, the handle\<close>

lemma extract_steps_empty:
  "extract_steps U \<lparr> metadata_title = None, doc_pages = [] \<rparr> max_pages = Inl IndexError"
  by (simp add: extract_steps_def py_truediv_def merge_lines_def extract_title_def
      first_page_title_def py_index_def)

lemma collect_candidates_no_spans:
  "\<forall>p\<in>set ps. \<exists>bs. page_dict_flags p = Inr bs \<and> spans_of bs = []
    \<Longrightarrow> collect_candidates U n ps = Inr []"
  by (induction ps arbitrary: n) (auto simp add: List.map_filter_simps)

text \<open>
  A document that has pages, none of which yields a span, and no metadata title: the
  outline is empty and the title is the placeholder; the handle is closed.
\<close>

lemma no_spans_untitled:
  assumes pages: "doc_pages doc \<noteq> []"
    and flags: "\<forall>p\<in>set (doc_pages doc). \<exists>bs. page_dict_flags p = Inr bs \<and> spans_of bs = []"
    and first: "\<exists>bs. page_dict (hd (doc_pages doc)) = Inr bs \<and> spans_of bs = []"
    and meta: "metadata_title doc = None"
  shows "extract_outline U (Inr doc) max_pages
           = (\<lparr> title = ustr ''Untitled Document'', outline = [] \<rparr>, Closed)"
proof -
  have "\<forall>p\<in>set (take n (doc_pages doc)). \<exists>bs. page_dict_flags p = Inr bs \<and> spans_of bs = []"
    for n
    using flags by (meson in_set_takeD)
  then have c: "collect_candidates U 0 (take n (doc_pages doc)) = Inr []" for n
    by (rule collect_candidates_no_spans)
  obtain p ps where d: "doc_pages doc = p # ps"
    using pages by (cases "doc_pages doc") auto
  obtain bs where b: "page_dict p = Inr bs" "spans_of bs = []"
    using first d by auto
  have u: "ustr ''Untitled Document'' \<noteq> []"
    by (simp add: ustr_def)
  have t: "first_page_title U doc = Inr (ustr ''Untitled Document'')"
    using u by (simp add: first_page_title_def py_index_def d b vertical_title_def)
  have "extract_steps U doc max_pages = Inr \<lparr> title = ustr ''Untitled Document'', outline = [] \<rparr>"
    by (simp add: extract_steps_def c py_truediv_def merge_lines_def extract_title_def meta t)
  then show ?thesis
    by (simp add: extract_outline_def extract_outline_try_def)
qed

text \<open>
  C2. When opening the document raises, or any statement between the opening and
  \<open>doc.close()\<close> raises, \<open>extract_outline\<close> returns the result with the title "Error" and
  an empty outline; it returns a result on every input, so nothing reaches the caller.
\<close>

theorem fail_soft:
  "opened = Inl err \<or> (\<exists>doc. opened = Inr doc \<and> extract_steps U doc max_pages = Inl err)
    \<Longrightarrow> fst (extract_outline U opened max_pages) = \<lparr> title = ustr ''Error'', outline = [] \<rparr>"
  by (auto simp add: extract_outline_def extract_outline_try_def error_result_def)

theorem fail_soft_witness:
  "fst (extract_outline ucd_basic (Inl DocumentError) 100)
     = \<lparr> title = ustr ''Error'', outline = [] \<rparr>
   \<and> fst (extract_outline ucd_basic
             (Inr \<lparr> metadata_title = Some (ustr ''Report''),
                    doc_pages = [\<lparr> page_dict = Inr [], page_dict_flags = Inl DocumentError \<rparr>] \<rparr>)
             100)
     = \<lparr> title = ustr ''Error'', outline = [] \<rparr>"
proof -
  have "extract_steps ucd_basic
          \<lparr> metadata_title = Some (ustr ''Report''),
            doc_pages = [\<lparr> page_dict = Inr [], page_dict_flags = Inl DocumentError \<rparr>] \<rparr> 100
        = Inl DocumentError"
    by (simp add: extract_steps_def)
  then show ?thesis
    using fail_soft [of "Inl DocumentError" DocumentError ucd_basic 100]
      fail_soft [of "Inr \<lparr> metadata_title = Some (ustr ''Report''),
                          doc_pages = [\<lparr> page_dict = Inr [], page_dict_flags = Inl DocumentError \<rparr>] \<rparr>"
                    DocumentError ucd_basic 100]
    by simp
qed

text \<open>
  C3. The claim asks for the title "Untitled Document" on a document without pages. The
  code reads \<open>doc[0]\<close> in \<open>extract_title\<close> without a test for an empty document: on a
  document with no page and no metadata title the read raises \<open>IndexError\<close>, the handler
  catches it, and the result is the title "Error". (With at least one page and no span,
  \<open>no_spans_untitled\<close> gives the placeholder.)
\<close>

theorem zero_pages_gives_error:
  "fst (extract_outline U (Inr \<lparr> metadata_title = None, doc_pages = [] \<rparr>) max_pages)
     = \<lparr> title = ustr ''Error'', outline = [] \<rparr>
   \<and> fst (extract_outline U (Inr \<lparr> metadata_title = None, doc_pages = [] \<rparr>) max_pages)
     \<noteq> \<lparr> title = ustr ''Untitled Document'', outline = [] \<rparr>"
  by (simp add: extract_outline_def extract_outline_try_def extract_steps_empty error_result_def
      ustr_def)

text \<open>
  C9. \<open>doc.close()\<close> is the last statement of the \<open>try\<close> block and the handler does not
  close: when a statement after the opening raises, the call returns with the handle
  open. The document without pages is such an input.
\<close>

theorem handle_left_open:
  "snd (extract_outline U (Inr \<lparr> metadata_title = None, doc_pages = [] \<rparr>) max_pages) = Open"
  by (simp add: extract_outline_def extract_outline_try_def extract_steps_empty)

lemma handle_after_call:
  "snd (extract_outline U (Inr doc) max_pages)
     = (case extract_steps U doc max_pages of Inl err \<Rightarrow> Open | Inr r \<Rightarrow> Closed)"
  by (simp add: extract_outline_def extract_outline_try_def split: sum.splits)

section \<open>Numbering depth in the Level Assigner\<close>

lemma t1_names: "\<not> re_match ucd_basic section_names_rx (ucd_lower ucd_basic (ustr ''1. A''))"
  by (simp add: section_names_rx_def rx_eval)

lemma t1_chapter: "\<not> re_match ucd_basic chapter_marker_rx (ustr ''1. A'')"
  by (simp add: chapter_marker_rx_def rx_eval)

lemma t1_one_level: "re_match ucd_basic one_level_rx (ustr ''1. A'')"
  by (simp add: one_level_rx_def rx_eval)

lemma t2_names: "\<not> re_match ucd_basic section_names_rx (ucd_lower ucd_basic (ustr ''1.1 B''))"
  by (simp add: section_names_rx_def rx_eval)

lemma t2_chapter: "\<not> re_match ucd_basic chapter_marker_rx (ustr ''1.1 B'')"
  by (simp add: chapter_marker_rx_def rx_eval)

lemma t2_one_level: "\<not> re_match ucd_basic one_level_rx (ustr ''1.1 B'')"
  by (simp add: one_level_rx_def rx_eval)

lemma t2_two_level: "re_match ucd_basic two_level_rx (ustr ''1.1 B'')"
  by (simp add: two_level_rx_def rx_eval)

lemma t3_names: "\<not> re_match ucd_basic section_names_rx (ucd_lower ucd_basic (ustr ''1.1.1 C''))"
  by (simp add: section_names_rx_def rx_eval)

lemma t3_chapter: "\<not> re_match ucd_basic chapter_marker_rx (ustr ''1.1.1 C'')"
  by (simp add: chapter_marker_rx_def rx_eval)

lemma t3_one_level: "\<not> re_match ucd_basic one_level_rx (ustr ''1.1.1 C'')"
  by (simp add: one_level_rx_def rx_eval)

lemma t3_two_level: "re_match ucd_basic two_level_rx (ustr ''1.1.1 C'')"
  by (simp add: two_level_rx_def rx_eval)

lemma t3_three_level: "re_match ucd_basic three_level_rx (ustr ''1.1.1 C'')"
  by (simp add: three_level_rx_def rx_eval)

lemma level_chain:
  "font_sizes \<noteq> [] \<Longrightarrow> \<not> re_match U section_names_rx (ucd_lower U tx)
    \<Longrightarrow> \<not> re_match U chapter_marker_rx tx
    \<Longrightarrow> (re_match U one_level_rx tx \<longrightarrow> determine_heading_level U tx fs b font_sizes = Inr H1)
      \<and> (\<not> re_match U one_level_rx tx \<and> re_match U two_level_rx tx
           \<longrightarrow> determine_heading_level U tx fs b font_sizes = Inr H2)"
  by (simp add: determine_heading_level_def)

text \<open>
  C1. The claim asks for H1, H2 and H3 on the texts "1. A", "1.1 B" and "1.1.1 C". The
  code tests the one-level pattern first, then the two-level pattern, then the three-level
  pattern; every text with a three-level prefix also has a two-level prefix, so the branch
  for H3 is never taken. With any font size, any boldness and any non-empty list of heading
  font sizes the levels are H1, H2 and H2, although the third text does match the
  three-level pattern.
\<close>

theorem numbering_depth_levels:
  "font_sizes \<noteq> [] \<Longrightarrow>
     determine_heading_level ucd_basic (ustr ''1. A'') fs bold font_sizes = Inr H1
     \<and> determine_heading_level ucd_basic (ustr ''1.1 B'') fs bold font_sizes = Inr H2
     \<and> determine_heading_level ucd_basic (ustr ''1.1.1 C'') fs bold font_sizes = Inr H2
     \<and> re_match ucd_basic three_level_rx (ustr ''1.1.1 C'')"
  using level_chain [OF _ t1_names t1_chapter, of font_sizes fs bold]
    level_chain [OF _ t2_names t2_chapter, of font_sizes fs bold]
    level_chain [OF _ t3_names t3_chapter, of font_sizes fs bold]
    t1_one_level t2_one_level t2_two_level t3_one_level t3_two_level t3_three_level
  by blast

theorem numbering_depth_levels_witness:
  "determine_heading_level ucd_basic (ustr ''1. A'') 16 True [16, 13, 12] = Inr H1
   \<and> determine_heading_level ucd_basic (ustr ''1.1 B'') 13 False [16, 13, 12] = Inr H2
   \<and> determine_heading_level ucd_basic (ustr ''1.1.1 C'') 12 False [16, 13, 12] = Inr H2"
proof -
  have ne: "[16, 13, 12 :: real] \<noteq> []" by simp
  show ?thesis
    using numbering_depth_levels [OF ne, of 16 True] numbering_depth_levels [OF ne, of 13 False]
      numbering_depth_levels [OF ne, of 12 False]
    by blast
qed

section \<open>The order of the title sources\<close>

lemma hd_sort_key_min:
  assumes "xs \<noteq> []"
  shows "hd (sort_key f xs) \<in> set xs \<and> (\<forall>x\<in>set xs. f (hd (sort_key f xs)) \<le> f x)"
proof -
  obtain y ys where ys: "sort_key f xs = y # ys"
    using assms by (cases "sort_key f xs") (auto dest: arg_cong [where f = length])
  have s: "set (y # ys) = set xs"
    using ys set_sort [of f xs] by simp
  have "sorted (map f (y # ys))"
    using ys sorted_sort_key [of f xs] by simp
  then have "\<forall>z\<in>set ys. f y \<le> f z"
    by simp
  then have "\<forall>z\<in>set (y # ys). f y \<le> f z"
    by simp
  with s ys show ?thesis by auto
qed

lemma py_index_sort_key_0: "xs \<noteq> [] \<Longrightarrow> py_index (sort_key f xs) 0 = Inr (hd (sort_key f xs))"
  by (cases "sort_key f xs") (auto simp add: py_index_def dest: arg_cong [where f = length])

lemma title_key_le:
  "title_key h \<le> title_key h' \<longleftrightarrow>
     page_no h < page_no h' \<or> (page_no h = page_no h' \<and> font_size h' \<le> font_size h)"
  by (auto simp add: title_key_def)

lemma extract_title_metadata:
  "metadata_title doc = Some t \<Longrightarrow> 3 < length (strip U t)
    \<Longrightarrow> extract_title U doc headings = Inr (strip U t)"
  by (auto simp add: extract_title_def strip_def)

lemma extract_title_no_metadata:
  assumes "metadata_title doc = None \<or> (\<exists>t. metadata_title doc = Some t \<and> \<not> 3 < length (strip U t))"
  shows "extract_title U doc headings =
           (if headings \<noteq> []
               \<and> effective_length U (run_text (hd (sort_key title_key headings))) < 150
               \<and> \<not> re_match U one_level_rx (run_text (hd (sort_key title_key headings)))
            then Inr (run_text (hd (sort_key title_key headings)))
            else first_page_title U doc)"
proof -
  have m: "(case metadata_title doc of None \<Rightarrow> None
            | Some t \<Rightarrow> if t \<noteq> [] \<and> length (strip U t) > 3 then Some (strip U t) else None) = None"
    using assms by (auto split: option.splits)
  show ?thesis
  proof (cases "headings = []")
    case True
    then show ?thesis by (simp add: extract_title_def m)
  next
    case False
    then show ?thesis
      by (simp add: extract_title_def m py_index_sort_key_0 [OF False] Let_def)
  qed
qed

text \<open>
  C6, as amended. When the metadata title is present and longer than 3 characters after
  trimming, \<open>extract_title\<close> returns the trimmed metadata title, whatever the headings.
  Otherwise, when there are headings, the first heading \<open>h\<close> in the order of the key
  (page, minus font size) has the lowest key among them; it is returned as the title when
  its effective length is under 150 and it does not match \<open>^\d+\.\s+\<close>. A first heading
  that is numbered, or whose effective length is 150 or more, makes the call continue with
  the largest span of the first page, and so does an empty list of headings.
\<close>

theorem title_fallback_order:
  "(metadata_title doc = Some t \<and> 3 < length (strip U t)
      \<longrightarrow> extract_title U doc headings = Inr (strip U t))
   \<and> ((metadata_title doc = None \<or> (\<exists>t. metadata_title doc = Some t \<and> \<not> 3 < length (strip U t)))
        \<and> headings \<noteq> [] \<and> h = hd (sort_key title_key headings)
      \<longrightarrow> h \<in> set headings
          \<and> (\<forall>h'\<in>set headings.
                page_no h < page_no h' \<or> (page_no h = page_no h' \<and> font_size h' \<le> font_size h))
          \<and> (effective_length U (run_text h) < 150 \<and> \<not> re_match U one_level_rx (run_text h)
                \<longrightarrow> extract_title U doc headings = Inr (run_text h))
          \<and> (re_match U one_level_rx (run_text h)
                \<longrightarrow> extract_title U doc headings = first_page_title U doc)
          \<and> (\<not> effective_length U (run_text h) < 150
                \<longrightarrow> extract_title U doc headings = first_page_title U doc))
   \<and> ((metadata_title doc = None \<or> (\<exists>t. metadata_title doc = Some t \<and> \<not> 3 < length (strip U t)))
        \<and> headings = []
      \<longrightarrow> extract_title U doc headings = first_page_title U doc)"
proof (intro conjI impI)
  assume "metadata_title doc = Some t \<and> 3 < length (strip U t)"
  then show "extract_title U doc headings = Inr (strip U t)"
    by (simp add: extract_title_metadata)
next
  assume a: "(metadata_title doc = None
        \<or> (\<exists>t. metadata_title doc = Some t \<and> \<not> 3 < length (strip U t)))
      \<and> headings \<noteq> [] \<and> h = hd (sort_key title_key headings)"
  then have m: "hd (sort_key title_key headings) \<in> set headings
      \<and> (\<forall>x\<in>set headings. title_key (hd (sort_key title_key headings)) \<le> title_key x)"
    by (intro hd_sort_key_min) simp
  from a m show "h \<in> set headings" by simp
  from a m show "\<forall>h'\<in>set headings.
      page_no h < page_no h' \<or> (page_no h = page_no h' \<and> font_size h' \<le> font_size h)"
    by (simp add: title_key_le)
  have e: "extract_title U doc headings =
           (if effective_length U (run_text h) < 150 \<and> \<not> re_match U one_level_rx (run_text h)
            then Inr (run_text h) else first_page_title U doc)"
    using a extract_title_no_metadata [of doc U headings] by simp
  {
    assume "effective_length U (run_text h) < 150 \<and> \<not> re_match U one_level_rx (run_text h)"
    then show "extract_title U doc headings = Inr (run_text h)"
      using e by simp
  }
  {
    assume "re_match U one_level_rx (run_text h)"
    then show "extract_title U doc headings = first_page_title U doc"
      using e by simp
  }
  {
    assume "\<not> effective_length U (run_text h) < 150"
    then show "extract_title U doc headings = first_page_title U doc"
      using e by simp
  }
next
  assume "(metadata_title doc = None
        \<or> (\<exists>t. metadata_title doc = Some t \<and> \<not> 3 < length (strip U t)))
      \<and> headings = []"
  then show "extract_title U doc headings = first_page_title U doc"
    using extract_title_no_metadata [of doc U headings] by simp
qed

lemma strip_annual: "strip ucd_basic (ustr '' Annual Report'') = ustr ''Annual Report''"
  by (simp add: strip_def ustr_def ucd_basic_simps)

lemma sample_headings_first:
  "hd (sort_key title_key sample_headings)
     = \<lparr> run_text = ustr ''Scope'', font_size = 18, is_bold = False, page_no = 1 \<rparr>"
  by (simp add: sample_headings_def title_key_def)

lemma scope_not_numbered: "\<not> re_match ucd_basic one_level_rx (ustr ''Scope'')"
  by (simp add: one_level_rx_def rx_eval)

lemma scope_length: "effective_length ucd_basic (ustr ''Scope'') < 150"
  by (simp add: effective_length_def ustr_def ucd_basic_simps)

lemma overview_numbered: "re_match ucd_basic one_level_rx (ustr ''1. Overview'')"
  by (simp add: one_level_rx_def rx_eval)

lemma sample_first_page_title:
  "first_page_title ucd_basic \<lparr> metadata_title = None, doc_pages = [sample_page] \<rparr>
     = Inr (ustr ''Big Title'')"
  by (simp add: first_page_title_def py_index_def sample_page_def spans_of_def largest_step_def
      strip_def effective_length_def ustr_def ucd_basic_simps)

lemma long_heading_length: "\<not> effective_length ucd_basic (replicate 150 90) < 150"
  by (simp add: effective_length_narrow ucd_basic_simps)

theorem title_fallback_order_witness:
  "extract_title ucd_basic \<lparr> metadata_title = Some (ustr ''Annual Report''), doc_pages = [] \<rparr>
      sample_headings = Inr (ustr ''Annual Report'')
   \<and> extract_title ucd_basic \<lparr> metadata_title = None, doc_pages = [] \<rparr> sample_headings
       = Inr (ustr ''Scope'')
   \<and> extract_title ucd_basic \<lparr> metadata_title = None, doc_pages = [sample_page] \<rparr>
        [\<lparr> run_text = ustr ''1. Overview'', font_size = 16, is_bold = True, page_no = 1 \<rparr>]
       = Inr (ustr ''Big Title'')
   \<and> extract_title ucd_basic \<lparr> metadata_title = None, doc_pages = [sample_page] \<rparr>
        [\<lparr> run_text = replicate 150 90, font_size = 16, is_bold = True, page_no = 1 \<rparr>]
       = Inr (ustr ''Big Title'')
   \<and> extract_title ucd_basic \<lparr> metadata_title = None, doc_pages = [sample_page] \<rparr> []
       = Inr (ustr ''Big Title'')"
proof -
  have s: "strip ucd_basic (ustr ''Annual Report'') = ustr ''Annual Report''"
    by (simp add: strip_def ustr_def ucd_basic_simps)
  have l: "3 < length (ustr ''Annual Report'')"
    by (simp add: ustr_def)
  have ne: "sample_headings \<noteq> []"
    by (simp add: sample_headings_def)
  have 1: "extract_title ucd_basic
      \<lparr> metadata_title = Some (ustr ''Annual Report''), doc_pages = [] \<rparr> sample_headings
      = Inr (ustr ''Annual Report'')"
    using title_fallback_order [where U = ucd_basic and t = "ustr ''Annual Report''"
          and doc = "\<lparr> metadata_title = Some (ustr ''Annual Report''), doc_pages = [] \<rparr>"
          and headings = sample_headings] s l
    by simp
  have 2: "extract_title ucd_basic \<lparr> metadata_title = None, doc_pages = [] \<rparr> sample_headings
       = Inr (ustr ''Scope'')"
    using title_fallback_order [where U = ucd_basic
          and doc = "\<lparr> metadata_title = None, doc_pages = [] \<rparr>"
          and headings = sample_headings
          and h = "\<lparr> run_text = ustr ''Scope'', font_size = 18, is_bold = False, page_no = 1 \<rparr>"]
      ne sample_headings_first scope_not_numbered scope_length
    by simp
  have 3: "extract_title ucd_basic \<lparr> metadata_title = None, doc_pages = [sample_page] \<rparr>
        [\<lparr> run_text = ustr ''1. Overview'', font_size = 16, is_bold = True, page_no = 1 \<rparr>]
       = Inr (ustr ''Big Title'')"
    using title_fallback_order [where U = ucd_basic
          and doc = "\<lparr> metadata_title = None, doc_pages = [sample_page] \<rparr>"
          and headings = "[\<lparr> run_text = ustr ''1. Overview'', font_size = 16, is_bold = True,
                              page_no = 1 \<rparr>]"
          and h = "\<lparr> run_text = ustr ''1. Overview'', font_size = 16, is_bold = True, page_no = 1 \<rparr>"]
      overview_numbered sample_first_page_title
    by simp
  have 4: "extract_title ucd_basic \<lparr> metadata_title = None, doc_pages = [sample_page] \<rparr>
        [\<lparr> run_text = replicate 150 90, font_size = 16, is_bold = True, page_no = 1 \<rparr>]
       = Inr (ustr ''Big Title'')"
    using title_fallback_order [where U = ucd_basic
          and doc = "\<lparr> metadata_title = None, doc_pages = [sample_page] \<rparr>"
          and headings = "[\<lparr> run_text = replicate 150 90, font_size = 16, is_bold = True,
                              page_no = 1 \<rparr>]"
          and h = "\<lparr> run_text = replicate 150 90, font_size = 16, is_bold = True, page_no = 1 \<rparr>"]
      long_heading_length sample_first_page_title
    by simp
  have 5: "extract_title ucd_basic \<lparr> metadata_title = None, doc_pages = [sample_page] \<rparr> []
       = Inr (ustr ''Big Title'')"
    using title_fallback_order [where U = ucd_basic
          and doc = "\<lparr> metadata_title = None, doc_pages = [sample_page] \<rparr>"
          and headings = "[]"]
      sample_first_page_title
    by simp
  from 1 2 3 4 5 show ?thesis
    by (intro conjI)
qed

text \<open>
  The claim as stated says that the metadata title itself is returned; a title with a
  leading space comes back without it.
\<close>

theorem title_not_verbatim:
  "extract_title ucd_basic \<lparr> metadata_title = Some (ustr '' Annual Report''), doc_pages = [] \<rparr> []
     = Inr (ustr ''Annual Report'')
   \<and> ustr ''Annual Report'' \<noteq> ustr '' Annual Report''"
proof -
  have "3 < length (strip ucd_basic (ustr '' Annual Report''))"
    by (simp add: strip_annual) (simp add: ustr_def)
  then have "extract_title ucd_basic
      \<lparr> metadata_title = Some (ustr '' Annual Report''), doc_pages = [] \<rparr> []
     = Inr (strip ucd_basic (ustr '' Annual Report''))"
    by (intro extract_title_metadata) simp_all
  then show ?thesis
    by (simp add: strip_annual) (simp add: ustr_def)
qed

section \<open>What the result stores\<close>

lemma clean_text_unfold:
  "clean_text U tx =
     (if tx = [] then []
      else filter (\<lambda>c. c \<noteq> 0xFFFD) (map (\<lambda>c. if c = 0x3000 then 32 else c)
             (rstrip_punct (strip U (collapse_ws U (filter (\<lambda>ch. \<not> ucd_control U ch)
                (ucd_nfc U (utf8_replace tx)))))))) "
  by (simp add: clean_text_def)

lemmas clean_eval = clean_text_unfold utf8_replace_def collapse_ws_def strip_def rstrip_punct_def
  drop_trailing_punct_def trailing_punct_def ucd_basic_simps ustr_def

lemma sample_candidate: "span_candidate ucd_basic 0 sample_span = Some sample_line"
  by (simp add: span_candidate_def sample_span_def sample_line_def strip_def ustr_def
      ucd_basic_simps ascii_lower_def Let_def)

lemma sample_collect:
  "collect_candidates ucd_basic 0 (doc_pages sample_doc) = Inr [sample_line]"
  by (simp add: sample_doc_def spans_of_def List.map_filter_simps sample_candidate)

lemma sample_merge: "merge_lines [sample_line] = [sample_line]"
  by (simp add: merge_lines_def merge_step_def sample_line_def ustr_def)

lemma clean_intro: "clean_text ucd_basic (ustr ''Intro .'') = ustr ''Intro ''"
  by (simp add: clean_eval)

lemma clean_intro2: "clean_text ucd_basic (ustr ''Intro '') = ustr ''Intro''"
  by (simp add: clean_eval)

lemma clean_report: "clean_text ucd_basic (ustr ''Report.'') = ustr ''Report''"
  by (simp add: clean_eval)


lemma intro_facts:
  "length (ustr ''Intro '') = 6"
  "ustr ''Intro '' \<noteq> []"
  "effective_length ucd_basic (ustr ''Intro '') = 6"
  "\<not> re_search ucd_basic noise_rx (ustr ''Intro '')"
  "\<not> re_search ucd_basic attribution_rx (ucd_lower ucd_basic (ustr ''Intro ''))"
  "\<not> re_search ucd_basic attribution_ja_rx (ustr ''Intro '')"
  "\<not> re_search ucd_basic attribution_hi_rx (ustr ''Intro '')"
  "\<not> re_search ucd_basic end_punct_rx (ustr ''Intro '')"
  "\<not> re_match ucd_basic numbered_rx (ustr ''Intro '')"
  "\<not> re_match ucd_basic chapter_rx (ustr ''Intro '')"
  "has_latin ucd_basic (ustr ''Intro '')"
  "split ucd_basic (ustr ''Intro '') = [ustr ''Intro'']"
  "capitalised ucd_basic [ustr ''Intro''] = 1"
  by (simp_all add: effective_length_def noise_rx_def attribution_rx_def attribution_ja_rx_def
      attribution_hi_rx_def end_punct_rx_def numbered_rx_def chapter_rx_def has_latin_def
      split_def capitalised_def rx_eval)

lemma intro_is_heading: "is_heading ucd_basic (ustr ''Intro '') 18 False 18 = Inr True"
  by (simp add: is_heading_def intro_facts py_truediv_def)

lemma intro_level_facts:
  "\<not> re_match ucd_basic section_names_rx (ucd_lower ucd_basic (ustr ''Intro ''))"
  "\<not> re_match ucd_basic chapter_marker_rx (ustr ''Intro '')"
  "\<not> re_match ucd_basic one_level_rx (ustr ''Intro '')"
  "\<not> re_match ucd_basic two_level_rx (ustr ''Intro '')"
  "\<not> re_match ucd_basic three_level_rx (ustr ''Intro '')"
  "\<not> re_match ucd_basic bullet_rx (ustr ''Intro '')"
  by (simp_all add: section_names_rx_def chapter_marker_rx_def one_level_rx_def two_level_rx_def
      three_level_rx_def bullet_rx_def rx_eval)

lemma intro_level: "determine_heading_level ucd_basic (ustr ''Intro '') 18 False [18] = Inr H1"
  by (simp add: determine_heading_level_def intro_level_facts py_index_def)

lemma sample_title: "extract_title ucd_basic sample_doc hs = Inr (ustr ''Report.'')"
proof -
  have s: "strip ucd_basic (ustr ''Report.'') = ustr ''Report.''"
    by (simp add: strip_def ustr_def ucd_basic_simps)
  have l: "3 < length (ustr ''Report.'')"
    by (simp add: ustr_def)
  have "extract_title ucd_basic sample_doc hs = Inr (strip ucd_basic (ustr ''Report.''))"
    by (rule extract_title_metadata) (simp_all add: sample_doc_def s l)
  then show ?thesis
    by (simp add: s)
qed

lemma extract_steps_run:
  "\<lbrakk>collect_candidates U 0 (take (nat (min (int (length (doc_pages doc))) max_pages)) (doc_pages doc))
      = Inr cands;
    identify_headings U (sum_list (map font_size cands) / real (max 1 (length cands)))
      (merge_lines cands) = Inr hs;
    extract_title U doc hs = Inr t;
    assign_levels U (map font_size hs) hs = Inr es\<rbrakk>
   \<Longrightarrow> extract_steps U doc max_pages = Inr \<lparr> title = t, outline = es \<rparr>"
  by (simp add: extract_steps_def py_truediv_def Let_def)

lemma sample_steps:
  "extract_steps ucd_basic sample_doc 100
     = Inr \<lparr> title = ustr ''Report.'',
             outline = [\<lparr> entry_text = ustr ''Intro '', entry_level = H1, entry_page = 1 \<rparr>] \<rparr>"
proof (rule extract_steps_run [where cands = "[sample_line]"
        and hs = "[sample_line\<lparr> run_text := ustr ''Intro '' \<rparr>]"])
  have "take (nat (min (int (length (doc_pages sample_doc))) 100)) (doc_pages sample_doc)
            = doc_pages sample_doc"
    by (simp add: sample_doc_def)
  then show "collect_candidates ucd_basic 0
      (take (nat (min (int (length (doc_pages sample_doc))) 100)) (doc_pages sample_doc))
      = Inr [sample_line]"
    by (simp add: sample_collect)
next
  have avg: "sum_list (map font_size [sample_line]) / real (max 1 (length [sample_line])) = 18"
    by (simp add: sample_line_def)
  have f: "font_size sample_line = 18" "is_bold sample_line = False"
    "run_text sample_line = ustr ''Intro .''"
    by (simp_all add: sample_line_def)
  have "identify_headings ucd_basic 18 [sample_line]
            = Inr [sample_line\<lparr> run_text := ustr ''Intro '' \<rparr>]"
    by (simp add: f clean_intro intro_facts intro_is_heading)
  then show "identify_headings ucd_basic
      (sum_list (map font_size [sample_line]) / real (max 1 (length [sample_line])))
      (merge_lines [sample_line]) = Inr [sample_line\<lparr> run_text := ustr ''Intro '' \<rparr>]"
    by (simp only: avg sample_merge)
next
  show "extract_title ucd_basic sample_doc [sample_line\<lparr> run_text := ustr ''Intro '' \<rparr>]
          = Inr (ustr ''Report.'')"
    by (rule sample_title)
next
  show "assign_levels ucd_basic (map font_size [sample_line\<lparr> run_text := ustr ''Intro '' \<rparr>])
          [sample_line\<lparr> run_text := ustr ''Intro '' \<rparr>]
        = Inr [\<lparr> entry_text = ustr ''Intro '', entry_level = H1, entry_page = 1 \<rparr>]"
    by (simp add: sample_line_def intro_level)
qed


lemma identify_headings_texts:
  "identify_headings U avg lines = Inr hs \<Longrightarrow>
     \<forall>h\<in>set hs. run_text h \<noteq> []
        \<and> (\<exists>l\<in>set lines. run_text h = clean_text U (run_text l) \<and> page_no h = page_no l)"
proof (induction lines arbitrary: hs)
  case Nil
  then show ?case by simp
next
  case (Cons l ls)
  show ?case
  proof (cases "clean_text U (run_text l) = []")
    case True
    with Cons show ?thesis by (simp add: Let_def)
  next
    case False
    with Cons.prems obtain b hs' where
      b: "is_heading U (clean_text U (run_text l)) (font_size l) (is_bold l) avg = Inr b"
      and r: "identify_headings U avg ls = Inr hs'"
      and hs: "hs = (if b then l\<lparr> run_text := clean_text U (run_text l) \<rparr> # hs' else hs')"
      by (auto simp add: Let_def split: sum.splits)
    from Cons.IH [OF r] hs False show ?thesis
      by (auto split: if_splits)
  qed
qed

lemma assign_levels_texts:
  "assign_levels U sizes hs = Inr es \<Longrightarrow>
     \<forall>e\<in>set es. \<exists>h\<in>set hs. entry_text e = run_text h \<and> entry_page e = page_no h"
proof (induction hs arbitrary: es)
  case Nil
  then show ?case by simp
next
  case (Cons h hs)
  then show ?case
    by (auto split: sum.splits)
qed

lemma extract_steps_outline:
  assumes "extract_steps U doc max_pages = Inr r"
  shows "\<exists>cands. collect_candidates U 0
             (take (nat (min (int (length (doc_pages doc))) max_pages)) (doc_pages doc)) = Inr cands
           \<and> (\<forall>e\<in>set (outline r). entry_text e \<noteq> []
                 \<and> (\<exists>l\<in>set (merge_lines cands).
                       entry_text e = clean_text U (run_text l) \<and> entry_page e = page_no l))"
proof -
  from assms obtain cands hs t es where
    c: "collect_candidates U 0
          (take (nat (min (int (length (doc_pages doc))) max_pages)) (doc_pages doc)) = Inr cands"
    and i: "identify_headings U (sum_list (map font_size cands) / real (max 1 (length cands)))
              (merge_lines cands) = Inr hs"
    and a: "assign_levels U (map font_size hs) hs = Inr es"
    and r: "r = \<lparr> title = t, outline = es \<rparr>"
    by (auto simp add: extract_steps_def py_truediv_def Let_def split: sum.splits)
  from identify_headings_texts [OF i] assign_levels_texts [OF a] r c show ?thesis
    by fastforce
qed

lemma sample_outline:
  "fst (extract_outline ucd_basic (Inr sample_doc) 100)
     = \<lparr> title = ustr ''Report.'',
         outline = [\<lparr> entry_text = ustr ''Intro '', entry_level = H1, entry_page = 1 \<rparr>] \<rparr>"
  by (simp add: extract_outline_def extract_outline_try_def sample_steps)

lemma largest_text_source:
  "fst (foldl (largest_step U) acc spans) = fst acc
   \<or> (\<exists>sp\<in>set spans. fst (foldl (largest_step U) acc spans) = strip U (span_text sp))"
proof (induction spans arbitrary: acc)
  case Nil
  then show ?case by simp
next
  case (Cons sp spans)
  have "fst (largest_step U acc sp) = fst acc \<or> fst (largest_step U acc sp) = strip U (span_text sp)"
    by (cases acc) (simp add: largest_step_def Let_def)
  with Cons [of "largest_step U acc sp"] show ?case
    by auto
qed

lemma first_page_title_source:
  assumes "first_page_title U doc = Inr t"
  shows "\<exists>p ps bs. doc_pages doc = p # ps \<and> page_dict p = Inr bs
           \<and> ((\<exists>sp\<in>set (spans_of bs). t = strip U (span_text sp))
                \<or> t = vertical_title U (spans_of bs) \<or> t = ustr ''Untitled Document'')"
proof -
  from assms obtain p ps where d: "doc_pages doc = p # ps"
    by (cases "doc_pages doc") (auto simp add: first_page_title_def py_index_def)
  from assms d obtain bs where b: "page_dict p = Inr bs"
    by (cases "page_dict p") (auto simp add: first_page_title_def py_index_def)
  let ?l = "fst (foldl (largest_step U) ([], 0) (spans_of bs))"
  have t: "t = (if ?l = [] then (if vertical_title U (spans_of bs) \<noteq> []
                   then vertical_title U (spans_of bs) else ustr ''Untitled Document'') else ?l)"
    using assms d b by (auto simp add: first_page_title_def py_index_def Let_def split: if_splits)
  have "?l = [] \<or> (\<exists>sp\<in>set (spans_of bs). ?l = strip U (span_text sp))"
    using largest_text_source [of U "([], 0)" "spans_of bs"] by simp
  with t have "(\<exists>sp\<in>set (spans_of bs). t = strip U (span_text sp))
                \<or> t = vertical_title U (spans_of bs) \<or> t = ustr ''Untitled Document''"
    by (cases "?l = []") auto
  with d b show ?thesis by blast
qed

lemma extract_title_source:
  assumes "extract_title U doc hs = Inr t"
  shows "(\<exists>m. metadata_title doc = Some m \<and> t = strip U m)
         \<or> t \<in> run_text ` set hs
         \<or> first_page_title U doc = Inr t"
proof (cases "\<exists>m. metadata_title doc = Some m \<and> 3 < length (strip U m)")
  case True
  then obtain m where m: "metadata_title doc = Some m" "3 < length (strip U m)"
    by blast
  from extract_title_metadata [OF m] assms m show ?thesis
    by simp
next
  case False
  then have "metadata_title doc = None
      \<or> (\<exists>m. metadata_title doc = Some m \<and> \<not> 3 < length (strip U m))"
    by (cases "metadata_title doc") auto
  from extract_title_no_metadata [OF this, of hs] assms
  have "(hs \<noteq> [] \<and> t = run_text (hd (sort_key title_key hs))) \<or> first_page_title U doc = Inr t"
    by (auto split: if_splits)
  moreover have "hs \<noteq> [] \<Longrightarrow> hd (sort_key title_key hs) \<in> set hs"
    using hd_sort_key_min [of hs title_key] by simp
  ultimately show ?thesis
    by auto
qed

lemma assign_levels_map:
  "assign_levels U sizes hs = Inr es \<Longrightarrow> map entry_text es = map run_text hs"
proof (induction hs arbitrary: es)
  case Nil
  then show ?case by simp
next
  case (Cons h hs)
  then show ?case
    by (auto split: sum.splits)
qed

lemma extract_steps_title:
  assumes "extract_steps U doc max_pages = Inr r"
  shows "(\<exists>m. metadata_title doc = Some m \<and> title r = strip U m)
         \<or> title r \<in> entry_text ` set (outline r)
         \<or> first_page_title U doc = Inr (title r)"
proof -
  from assms obtain hs t es where
    e: "extract_title U doc hs = Inr t"
    and a: "assign_levels U (map font_size hs) hs = Inr es"
    and r: "r = \<lparr> title = t, outline = es \<rparr>"
    by (auto simp add: extract_steps_def py_truediv_def Let_def split: sum.splits)
  have "run_text ` set hs = entry_text ` set es"
    using assign_levels_map [OF a] by (metis set_map)
  with extract_title_source [OF e] r show ?thesis
    by auto
qed

lemma result_title_source:
  "title (fst (extract_outline U opened max_pages)) = ustr ''Error''
   \<or> (\<exists>doc. opened = Inr doc
         \<and> ((\<exists>m. metadata_title doc = Some m
                  \<and> title (fst (extract_outline U opened max_pages)) = strip U m)
             \<or> title (fst (extract_outline U opened max_pages))
                 \<in> entry_text ` set (outline (fst (extract_outline U opened max_pages)))
             \<or> (\<exists>p ps bs. doc_pages doc = p # ps \<and> page_dict p = Inr bs
                   \<and> ((\<exists>sp\<in>set (spans_of bs).
                          title (fst (extract_outline U opened max_pages)) = strip U (span_text sp))
                       \<or> title (fst (extract_outline U opened max_pages))
                           = vertical_title U (spans_of bs)
                       \<or> title (fst (extract_outline U opened max_pages))
                           = ustr ''Untitled Document''))))"
proof (cases opened)
  case (Inl err)
  then show ?thesis
    by (simp add: extract_outline_def extract_outline_try_def error_result_def)
next
  case (Inr doc)
  show ?thesis
  proof (cases "extract_steps U doc max_pages")
    case (Inl err)
    with Inr show ?thesis
      by (simp add: extract_outline_def extract_outline_try_def error_result_def)
  next
    case r: (Inr r)
    have f: "fst (extract_outline U opened max_pages) = r"
      using Inr r by (simp add: extract_outline_def extract_outline_try_def)
    from extract_steps_title [OF r] first_page_title_source [of U doc "title r"] Inr
    show ?thesis
      unfolding f by blast
  qed
qed

lemma outline_text_source:
  "\<forall>e\<in>set (outline (fst (extract_outline U opened max_pages))).
      entry_text e \<noteq> []
      \<and> (\<exists>doc cands l. opened = Inr doc
            \<and> collect_candidates U 0
                 (take (nat (min (int (length (doc_pages doc))) max_pages)) (doc_pages doc)) = Inr cands
            \<and> l \<in> set (merge_lines cands)
            \<and> entry_text e = clean_text U (run_text l) \<and> entry_page e = page_no l)"
proof (cases opened)
  case (Inl err)
  then show ?thesis
    by (simp add: extract_outline_def extract_outline_try_def error_result_def)
next
  case (Inr doc)
  show ?thesis
  proof (cases "extract_steps U doc max_pages")
    case (Inl err)
    with Inr show ?thesis
      by (simp add: extract_outline_def extract_outline_try_def error_result_def)
  next
    case r: (Inr r)
    have "fst (extract_outline U opened max_pages) = r"
      using Inr r by (simp add: extract_outline_def extract_outline_try_def)
    with extract_steps_outline [OF r] Inr show ?thesis
      by fastforce
  qed
qed

text \<open>
  C7, as amended. The text of every outline entry is the output of the Normalizer on the
  text of a merged line of the document, and is not empty; the entry keeps the page of
  that line. The title does not pass through the Normalizer: it is "Error", or the trimmed
  metadata title, or the text of an outline entry, or the trimmed text of a span of the
  first page, or the join of short fragments of the first page, or "Untitled Document".
\<close>

theorem stored_texts:
  "(\<forall>e\<in>set (outline (fst (extract_outline U opened max_pages))).
      entry_text e \<noteq> []
      \<and> (\<exists>doc cands l. opened = Inr doc
            \<and> collect_candidates U 0
                 (take (nat (min (int (length (doc_pages doc))) max_pages)) (doc_pages doc)) = Inr cands
            \<and> l \<in> set (merge_lines cands)
            \<and> entry_text e = clean_text U (run_text l) \<and> entry_page e = page_no l))
   \<and> (title (fst (extract_outline U opened max_pages)) = ustr ''Error''
   \<or> (\<exists>doc. opened = Inr doc
         \<and> ((\<exists>m. metadata_title doc = Some m
                  \<and> title (fst (extract_outline U opened max_pages)) = strip U m)
             \<or> title (fst (extract_outline U opened max_pages))
                 \<in> entry_text ` set (outline (fst (extract_outline U opened max_pages)))
             \<or> (\<exists>p ps bs. doc_pages doc = p # ps \<and> page_dict p = Inr bs
                   \<and> ((\<exists>sp\<in>set (spans_of bs).
                          title (fst (extract_outline U opened max_pages)) = strip U (span_text sp))
                       \<or> title (fst (extract_outline U opened max_pages))
                           = vertical_title U (spans_of bs)
                       \<or> title (fst (extract_outline U opened max_pages))
                           = ustr ''Untitled Document'')))))"
  by (intro conjI outline_text_source result_title_source)

theorem stored_texts_witness:
  "outline (fst (extract_outline ucd_basic (Inr sample_doc) 100))
     = [\<lparr> entry_text = ustr ''Intro '', entry_level = H1, entry_page = 1 \<rparr>]
   \<and> ustr ''Intro '' \<noteq> []
   \<and> (\<exists>l::text_run. ustr ''Intro '' = clean_text ucd_basic (run_text l) \<and> page_no l = 1)"
proof -
  let ?e = "\<lparr> entry_text = ustr ''Intro '', entry_level = H1, entry_page = 1 \<rparr>"
  have o: "outline (fst (extract_outline ucd_basic (Inr sample_doc) 100)) = [?e]"
    by (simp add: sample_outline)
  then have "?e \<in> set (outline (fst (extract_outline ucd_basic (Inr sample_doc) 100)))"
    by simp
  with stored_texts [of ucd_basic "Inr sample_doc" 100, THEN conjunct1]
  have "entry_text ?e \<noteq> []
      \<and> (\<exists>doc cands l. Inr sample_doc = (Inr doc :: py_error + document)
            \<and> collect_candidates ucd_basic 0
                 (take (nat (min (int (length (doc_pages doc))) 100)) (doc_pages doc)) = Inr cands
            \<and> l \<in> set (merge_lines cands)
            \<and> entry_text ?e = clean_text ucd_basic (run_text l) \<and> entry_page ?e = page_no l)"
    by (rule bspec)
  then have "entry_text ?e \<noteq> []
      \<and> (\<exists>l::text_run. entry_text ?e = clean_text ucd_basic (run_text l) \<and> entry_page ?e = page_no l)"
    by blast
  then have "ustr ''Intro '' \<noteq> []
      \<and> (\<exists>l::text_run. ustr ''Intro '' = clean_text ucd_basic (run_text l) \<and> page_no l = 1)"
    by simp metis
  with o show ?thesis by simp
qed

text \<open>
  The claim as stated fails on a document whose metadata title is "Report." and whose
  only span is "Intro ." at size 18: the title keeps its full stop, which the Normalizer
  would remove, and the outline text "Intro " keeps a trailing space, which the Normalizer
  would remove.
\<close>

theorem normalized_invariant_counterexample:
  "title (fst (extract_outline ucd_basic (Inr sample_doc) 100)) = ustr ''Report.''
   \<and> clean_text ucd_basic (ustr ''Report.'') \<noteq> ustr ''Report.''
   \<and> map entry_text (outline (fst (extract_outline ucd_basic (Inr sample_doc) 100)))
       = [ustr ''Intro '']
   \<and> clean_text ucd_basic (ustr ''Intro '') \<noteq> ustr ''Intro ''"
  by (simp add: sample_outline clean_report clean_intro2) (simp add: ustr_def)

section \<open>The Normalizer applied twice\<close>

lemma ascii_tables_basic: "ascii_tables ucd_basic"
  by (auto simp add: ascii_tables_def ucd_basic_simps)

lemma printable_set: "printable s \<longleftrightarrow> (\<forall>c\<in>set s. 32 \<le> c \<and> c \<le> 126)"
  by (simp add: printable_def list_all_iff)

lemma printable_utf8: "printable s \<Longrightarrow> utf8_replace s = s"
  by (auto simp add: utf8_replace_def printable_set intro!: map_idI)

lemma printable_control: "ascii_tables U \<Longrightarrow> printable s \<Longrightarrow> filter (\<lambda>ch. \<not> ucd_control U ch) s = s"
  by (auto simp add: ascii_tables_def printable_set intro!: filter_True)

lemma printable_replace: "printable s \<Longrightarrow> map (\<lambda>c. if c = 0x3000 then 32 else c) s = s"
  by (auto simp add: printable_set intro!: map_idI)

lemma printable_fffd: "printable s \<Longrightarrow> filter (\<lambda>c. c \<noteq> 0xFFFD) s = s"
  by (auto simp add: printable_set intro!: filter_True)

lemma set_collapse_from: "set (collapse_from U w s) \<subseteq> insert 32 (set s)"
  by (induction s arbitrary: w) auto

lemma printable_collapse: "printable s \<Longrightarrow> printable (collapse_ws U s)"
  using set_collapse_from [of U False s] by (auto simp add: printable_set collapse_ws_def)

lemma printable_strip: "printable s \<Longrightarrow> printable (strip U s)"
  by (auto simp add: printable_set strip_def dest!: set_dropWhileD)

lemma printable_drop_trailing: "printable s \<Longrightarrow> printable (drop_trailing_punct s)"
  by (auto simp add: printable_set drop_trailing_punct_def dest!: set_dropWhileD)

lemma printable_rstrip: "printable s \<Longrightarrow> rstrip_punct s = drop_trailing_punct s"
proof (cases "s = []")
  case True
  then show ?thesis by (simp add: rstrip_punct_def)
next
  case False
  assume "printable s"
  with False have "32 \<le> last s"
    by (simp add: printable_set)
  then show ?thesis
    by (simp add: rstrip_punct_def)
qed

lemma clean_text_printable:
  assumes "ascii_tables U" and "printable x"
  shows "clean_text U x = drop_trailing_punct (strip U (collapse_ws U x))"
    and "printable (clean_text U x)"
proof -
  have n: "ucd_nfc U x = x"
    using assms by (simp add: ascii_tables_def)
  have p: "printable (drop_trailing_punct (strip U (collapse_ws U x)))"
    using assms(2) by (intro printable_drop_trailing printable_strip printable_collapse)
  have r: "rstrip_punct (strip U (collapse_ws U x)) = drop_trailing_punct (strip U (collapse_ws U x))"
    using assms(2) by (intro printable_rstrip printable_strip printable_collapse)
  show e: "clean_text U x = drop_trailing_punct (strip U (collapse_ws U x))"
  proof (cases "x = []")
    case True
    then show ?thesis
      by (simp add: clean_text_def drop_trailing_punct_def strip_def collapse_ws_def)
  next
    case False
    then show ?thesis
      using p by (simp add: clean_text_unfold printable_utf8 [OF assms(2)] n
          printable_control [OF assms] r printable_replace printable_fffd)
  qed
  show "printable (clean_text U x)"
    using p e by simp
qed


lemma collapse_from_shape:
  "no_ws_pair U (collapse_from U w s)
   \<and> (w \<longrightarrow> collapse_from U w s = [] \<or> \<not> ucd_isspace U (hd (collapse_from U w s)))"
proof (induction s arbitrary: w)
  case Nil
  then show ?case by simp
next
  case (Cons c cs)
  note t = Cons.IH [of True] and f = Cons.IH [of False]
  show ?case
  proof (cases "ucd_isspace U c")
    case True
    then show ?thesis
      using t by (cases "collapse_from U True cs") auto
  next
    case False
    then show ?thesis
      using f by (cases "collapse_from U False cs") auto
  qed
qed

lemma no_ws_pair_append: "no_ws_pair U (as @ bs) \<Longrightarrow> no_ws_pair U as \<and> no_ws_pair U bs"
proof (induction as rule: no_ws_pair.induct [of _ U])
  case 1
  then show ?case by simp
next
  case (2 c)
  then show ?case by (cases bs) auto
next
  case (3 c d s)
  then show ?case by auto
qed

lemma rev_dropWhile_prefix: "rev (dropWhile P (rev t)) @ rev (takeWhile P (rev t)) = t"
proof -
  have "rev (takeWhile P (rev t) @ dropWhile P (rev t)) = t"
    by simp
  then show ?thesis
    by (simp only: rev_append)
qed

lemma no_ws_pair_strip: "no_ws_pair U s \<Longrightarrow> no_ws_pair U (strip U s)"
proof -
  assume a: "no_ws_pair U s"
  have "no_ws_pair U (takeWhile (ucd_isspace U) s @ dropWhile (ucd_isspace U) s)"
    using a by simp
  then have d: "no_ws_pair U (dropWhile (ucd_isspace U) s)"
    by (blast dest: no_ws_pair_append)
  have "no_ws_pair U (strip U s @ rev (takeWhile (ucd_isspace U) (rev (dropWhile (ucd_isspace U) s))))"
    using d by (simp only: strip_def rev_dropWhile_prefix)
  then show ?thesis
    by (blast dest: no_ws_pair_append)
qed

lemma no_ws_pair_drop_trailing: "no_ws_pair U s \<Longrightarrow> no_ws_pair U (drop_trailing_punct s)"
proof -
  assume a: "no_ws_pair U s"
  have "no_ws_pair U (drop_trailing_punct s
          @ rev (takeWhile (\<lambda>c. c \<in> set trailing_punct) (rev s)))"
    using a by (simp only: drop_trailing_punct_def rev_dropWhile_prefix)
  then show ?thesis
    by (blast dest: no_ws_pair_append)
qed

lemma collapse_from_fix:
  "no_ws_pair U s \<Longrightarrow> (\<forall>c\<in>set s. ucd_isspace U c \<longrightarrow> c = 32)
    \<Longrightarrow> (w \<longrightarrow> s = [] \<or> \<not> ucd_isspace U (hd s)) \<Longrightarrow> collapse_from U w s = s"
proof (induction s arbitrary: w)
  case Nil
  then show ?case by simp
next
  case (Cons c cs)
  have n: "no_ws_pair U cs"
    using Cons.prems(1) by (cases cs) auto
  show ?case
  proof (cases "ucd_isspace U c")
    case True
    then have w: "\<not> w" and c: "c = 32"
      using Cons.prems by auto
    have "cs = [] \<or> \<not> ucd_isspace U (hd cs)"
      using Cons.prems(1) True by (cases cs) auto
    then have "collapse_from U True cs = cs"
      using Cons.IH [of True] n Cons.prems(2) by simp
    then show ?thesis
      using True w c by simp
  next
    case False
    have "collapse_from U False cs = cs"
      using Cons.IH [of False] n Cons.prems(2) by simp
    then show ?thesis
      using False by simp
  qed
qed

lemma strip_fix:
  "s = [] \<or> (\<not> ucd_isspace U (hd s) \<and> \<not> ucd_isspace U (last s)) \<Longrightarrow> strip U s = s"
proof (cases "s = []")
  case True
  then show ?thesis by (simp add: strip_def)
next
  case False
  assume "s = [] \<or> (\<not> ucd_isspace U (hd s) \<and> \<not> ucd_isspace U (last s))"
  with False have h: "\<not> ucd_isspace U (hd s)" and l: "\<not> ucd_isspace U (last s)"
    by auto
  have 1: "dropWhile (ucd_isspace U) s = s"
    using h by (simp add: dropWhile_eq_self_iff)
  have "\<not> ucd_isspace U (hd (rev s))"
    using l False by (simp add: hd_rev)
  then have 2: "dropWhile (ucd_isspace U) (rev s) = rev s"
    by (simp add: dropWhile_eq_self_iff)
  show ?thesis
    by (simp add: strip_def 1 2)
qed

lemma drop_trailing_idem: "drop_trailing_punct (drop_trailing_punct s) = drop_trailing_punct s"
  by (simp add: drop_trailing_punct_def)

lemma strip_head: "strip U s = [] \<or> \<not> ucd_isspace U (hd (strip U s))"
proof (cases "strip U s = []")
  case True
  then show ?thesis by simp
next
  case False
  let ?t = "dropWhile (ucd_isspace U) s"
  have p: "strip U s @ rev (takeWhile (ucd_isspace U) (rev ?t)) = ?t"
    by (simp only: strip_def rev_dropWhile_prefix)
  then have "hd (strip U s) = hd ?t"
    using False by (metis hd_append2)
  moreover have "?t \<noteq> []"
    using p False by (metis append_is_Nil_conv)
  ultimately show ?thesis
    using hd_dropWhile [of "ucd_isspace U" s] by simp
qed

lemma drop_trailing_head:
  "drop_trailing_punct s \<noteq> [] \<Longrightarrow> hd (drop_trailing_punct s) = hd s"
proof -
  assume a: "drop_trailing_punct s \<noteq> []"
  have "drop_trailing_punct s @ rev (takeWhile (\<lambda>c. c \<in> set trailing_punct) (rev s)) = s"
    by (simp only: drop_trailing_punct_def rev_dropWhile_prefix)
  then show ?thesis
    using a by (metis hd_append2)
qed

text \<open>
  On printable ASCII text the trailing space is the only obstacle: when the first pass
  leaves no space at the end, a second pass changes nothing. The character tables enter
  through \<open>ascii_tables\<close>: on printable ASCII, NFC changes nothing, no character is a
  control character, and the space is the only whitespace.
\<close>

lemma clean_text_idempotent_printable:
  assumes tables: "ascii_tables U"
    and x: "printable x"
    and trailing: "clean_text U x = [] \<or> last (clean_text U x) \<noteq> 32"
  shows "clean_text U (clean_text U x) = clean_text U x"
proof -
  let ?c = "collapse_ws U x"
  let ?s = "strip U ?c"
  let ?y = "clean_text U x"
  have y: "?y = drop_trailing_punct ?s" and py: "printable ?y"
    using clean_text_printable [OF tables x] by simp_all
  have sp: "\<forall>c\<in>set ?y. ucd_isspace U c \<longrightarrow> c = 32"
    using py tables by (auto simp add: printable_set ascii_tables_def)
  have "no_ws_pair U ?c"
    using collapse_from_shape [of U False x] by (simp add: collapse_ws_def)
  then have nw: "no_ws_pair U ?y"
    unfolding y by (intro no_ws_pair_drop_trailing no_ws_pair_strip)
  have c: "collapse_ws U ?y = ?y"
    unfolding collapse_ws_def using nw sp by (intro collapse_from_fix) simp_all
  have hd: "?y = [] \<or> \<not> ucd_isspace U (hd ?y)"
  proof (cases "?y = []")
    case True
    then show ?thesis by simp
  next
    case False
    then have "hd ?y = hd ?s" and "?s \<noteq> []"
      using y drop_trailing_head [of ?s] by (auto simp add: drop_trailing_punct_def)
    then show ?thesis
      using strip_head [of U ?c] by simp
  qed
  have last: "?y = [] \<or> \<not> ucd_isspace U (last ?y)"
  proof (cases "?y = []")
    case True
    then show ?thesis by simp
  next
    case False
    then have "last ?y \<in> set ?y" by simp
    then show ?thesis
      using sp trailing False by auto
  qed
  have s: "strip U ?y = ?y"
    using hd last by (intro strip_fix) auto
  have d: "drop_trailing_punct ?y = ?y"
    unfolding y by (rule drop_trailing_idem)
  have "clean_text U ?y = drop_trailing_punct (strip U (collapse_ws U ?y))"
    using clean_text_printable(1) [OF tables py] .
  then show ?thesis
    by (simp only: c s d)
qed


lemma clean_numbered_intro:
  "clean_text ucd_basic (ustr ''  1.  Intro:  '') = ustr ''1. Intro''"
  by (simp add: clean_eval)

lemma clean_numbered_intro_twice:
  "clean_text ucd_basic (ustr ''  1.  Intro:  '') = ustr ''1. Intro''
   \<and> clean_text ucd_basic (clean_text ucd_basic (ustr ''  1.  Intro:  ''))
       = clean_text ucd_basic (ustr ''  1.  Intro:  '')"
proof -
  have p: "printable (ustr ''  1.  Intro:  '')"
    by (simp add: printable_def ustr_def)
  have l: "clean_text ucd_basic (ustr ''  1.  Intro:  '') = []
            \<or> last (clean_text ucd_basic (ustr ''  1.  Intro:  '')) \<noteq> 32"
    by (simp add: clean_numbered_intro) (simp add: ustr_def)
  show ?thesis
    using clean_text_idempotent_printable [OF ascii_tables_basic p l] clean_numbered_intro
    by simp
qed

text \<open>
  C4. The claim asks that \<open>clean_text (clean_text x) = clean_text x\<close> for every text. The
  code trims the text and then removes the trailing punctuation, under the comment "Trim
  and remove trailing punctuation": on "Intro ." the first pass returns "Intro " with a
  space at the end, which is not trimmed, and the second pass returns "Intro".
\<close>

theorem clean_text_not_idempotent:
  "clean_text ucd_basic (ustr ''Intro .'') = ustr ''Intro ''
   \<and> clean_text ucd_basic (clean_text ucd_basic (ustr ''Intro .'')) = ustr ''Intro''
   \<and> clean_text ucd_basic (clean_text ucd_basic (ustr ''Intro .''))
       \<noteq> clean_text ucd_basic (ustr ''Intro .'')"
  by (simp add: clean_intro clean_intro2) (simp add: ustr_def)

end
